theory Spec2Isabelle
  imports Main "HOL-Library.AList"
begin

section \<open>The response writer of net/http\<close>

text \<open>
  A handler receives an \<open>http.ResponseWriter\<close>. The writer owns a mutable header map; the
  first call of \<open>WriteHeader\<close> (or the first \<open>Write\<close>, which implies status 200) commits the
  status line together with a snapshot of the header map. Every later \<open>WriteHeader\<close> is
  ignored by net/http (it is only reported as superfluous), and changes of the header map after
  the commit never reach the connection.
\<close>

type_synonym header = "(string \<times> string) list"

record response_writer =
  hdr :: header
  wire :: "(nat \<times> header) option"
  body :: string
  superfluous :: "nat list"

definition new_writer :: response_writer where
  "new_writer = \<lparr>hdr = [], wire = None, body = [], superfluous = []\<rparr>"

definition header_Set :: "string \<Rightarrow> string \<Rightarrow> response_writer \<Rightarrow> response_writer" where
  "header_Set k v w = w\<lparr>hdr := AList.update k v (hdr w)\<rparr>"

definition header_Del :: "string \<Rightarrow> response_writer \<Rightarrow> response_writer" where
  "header_Del k w = w\<lparr>hdr := AList.delete k (hdr w)\<rparr>"

definition WriteHeader :: "nat \<Rightarrow> response_writer \<Rightarrow> response_writer" where
  "WriteHeader code w =
     (case wire w of
        None \<Rightarrow> w\<lparr>wire := Some (code, hdr w)\<rparr>
      | Some c \<Rightarrow> w\<lparr>superfluous := superfluous w @ [code]\<rparr>)"

definition Write :: "string \<Rightarrow> response_writer \<Rightarrow> response_writer" where
  "Write bs w =
     (let w1 = (if wire w = None then WriteHeader 200 w else w)
      in w1\<lparr>body := body w1 @ bs\<rparr>)"

definition Fprintln :: "string \<Rightarrow> response_writer \<Rightarrow> response_writer" where
  "Fprintln s w = Write (s @ [CHR 0x0A]) w"

definition status_of :: "response_writer \<Rightarrow> nat option" where
  "status_of w = map_option fst (wire w)"

definition StatusText :: "nat \<Rightarrow> string" where
  "StatusText code =
     (if code = 200 then ''OK''
      else if code = 303 then ''See Other''
      else if code = 400 then ''Bad Request''
      else if code = 404 then ''Not Found''
      else if code = 405 then ''Method Not Allowed''
      else if code = 422 then ''Unprocessable Entity''
      else if code = 500 then ''Internal Server Error''
      else [])"

definition StatusOK :: nat where "StatusOK = 200"
definition StatusSeeOther :: nat where "StatusSeeOther = 303"
definition StatusBadRequest :: nat where "StatusBadRequest = 400"
definition StatusNotFound :: nat where "StatusNotFound = 404"
definition StatusMethodNotAllowed :: nat where "StatusMethodNotAllowed = 405"
definition StatusUnprocessableEntity :: nat where "StatusUnprocessableEntity = 422"
definition StatusInternalServerError :: nat where "StatusInternalServerError = 500"

lemmas status_defs = StatusOK_def StatusSeeOther_def StatusBadRequest_def StatusNotFound_def
  StatusMethodNotAllowed_def StatusUnprocessableEntity_def StatusInternalServerError_def

text \<open>\<open>http.Error\<close>: drop Content-Length, set the plain-text headers, write the status, print the
  message followed by a newline.\<close>

definition http_Error :: "string \<Rightarrow> nat \<Rightarrow> response_writer \<Rightarrow> response_writer" where
  "http_Error msg code w =
     Fprintln msg
       (WriteHeader code
         (header_Set ''X-Content-Type-Options'' ''nosniff''
           (header_Set ''Content-Type'' ''text/plain; charset=utf-8''
             (header_Del ''Content-Length'' w))))"

section \<open>Data model\<close>

text \<open>\<open>models.Snippet\<close>; the two timestamps are seconds on the database clock.\<close>

record Snippet =
  ID :: int
  Title :: string
  Content :: string
  Created :: int
  Expires :: int

text \<open>The sentinel errors of package models, and any other error value (a driver or template
  error) carried with its message.\<close>

datatype error = ErrNoRecord | ErrInvalidCredentials | ErrDuplicateEmail | OtherError string

fun error_Error :: "error \<Rightarrow> string" where
  "error_Error ErrNoRecord = ''models: no matching records found''"
| "error_Error ErrInvalidCredentials = ''models: no matching record found''"
| "error_Error ErrDuplicateEmail = ''models: duplicate email''"
| "error_Error (OtherError m) = m"

text \<open>Modelled from the spec: the validator package (internal/validator) is not among the
  sources. The spec describes a form record's validation result as a mapping from field to an
  ordered list of messages, to which each failing check appends a field-keyed message, and a
  record as valid iff that mapping is empty. The form structs of the handlers embed the
  validator, which is record extension here.\<close>

record Validator =
  FieldErrors :: "(string \<times> string list) list"

definition AddFieldError :: "string \<Rightarrow> string \<Rightarrow> 'a Validator_scheme \<Rightarrow> 'a Validator_scheme" where
  "AddFieldError key message v =
     v\<lparr>FieldErrors :=
         (case map_of (FieldErrors v) key of
            None \<Rightarrow> FieldErrors v @ [(key, [message])]
          | Some ms \<Rightarrow> AList.update key (ms @ [message]) (FieldErrors v))\<rparr>"

definition CheckField :: "bool \<Rightarrow> string \<Rightarrow> string \<Rightarrow> 'a Validator_scheme \<Rightarrow> 'a Validator_scheme" where
  "CheckField ok key message v = (if \<not> ok then AddFieldError key message v else v)"

definition Valid :: "'a Validator_scheme \<Rightarrow> bool" where
  "Valid v = (FieldErrors v = [])"

text \<open>Modelled from the spec: the named checks "not blank", "max length", "min length" and
  "membership in set" of the missing validator package. A value is blank when nothing but white
  space is in it; lengths count the characters of the string.\<close>

definition is_space :: "char \<Rightarrow> bool" where
  "is_space c = (c = CHR '' '' \<or> c = CHR 0x09 \<or> c = CHR 0x0A \<or> c = CHR 0x0B \<or> c = CHR 0x0C \<or> c = CHR 0x0D)"

definition NotBlank :: "string \<Rightarrow> bool" where
  "NotBlank v = (filter (\<lambda>c. \<not> is_space c) v \<noteq> [])"

definition MaxChars :: "string \<Rightarrow> nat \<Rightarrow> bool" where
  "MaxChars v n = (length v \<le> n)"

definition MinChars :: "string \<Rightarrow> nat \<Rightarrow> bool" where
  "MinChars v n = (length v \<ge> n)"

definition PermittedInt :: "int \<Rightarrow> int list \<Rightarrow> bool" where
  "PermittedInt v permitted = (v \<in> set permitted)"

definition Matches :: "string \<Rightarrow> (string \<Rightarrow> bool) \<Rightarrow> bool" where
  "Matches v rx = rx v"

record snippetCreateForm = Validator +
  form_Title :: string
  form_Content :: string
  form_Expires :: int

record userSignupForm = Validator +
  form_Name :: string
  form_Email :: string
  form_Password :: string

definition zero_snippetCreateForm :: snippetCreateForm where
  "zero_snippetCreateForm = \<lparr>FieldErrors = [], form_Title = [], form_Content = [], form_Expires = 0\<rparr>"

definition zero_userSignupForm :: userSignupForm where
  "zero_userSignupForm = \<lparr>FieldErrors = [], form_Name = [], form_Email = [], form_Password = []\<rparr>"

text \<open>The \<open>Form\<close> field of the template data has type \<open>any\<close>; the handlers store one of the two
  form structs in it.\<close>

datatype form_any = NoForm | SnippetForm snippetCreateForm | SignupForm userSignupForm

record templateData =
  CurrentYear :: int
  td_Snippet :: "Snippet option"
  td_Snippets :: "Snippet list"
  td_Form :: form_any
  Flash :: string
  IsAuthenticated :: bool
  CSRFToken :: string

text \<open>A compiled template set: executing it on the template data writes bytes into the buffer
  it is given and may stop with an error after having written a part of its output.\<close>

type_synonym template = "templateData \<Rightarrow> string \<times> error option"

section \<open>The snippet store\<close>

text \<open>The \<open>snippets\<close> table behind \<open>*sql.DB\<close>: its rows, the AUTO_INCREMENT counter, the value
  \<open>UTC_TIMESTAMP()\<close> has when a statement runs, and the failures the driver can report (a
  statement that cannot be executed, a result without a last insert id).\<close>

record db =
  rows :: "Snippet list"
  next_id :: int
  clock :: int
  exec_err :: "string option"
  lastid_err :: "string option"

definition day :: int where "day = 86400"

text \<open>\<open>SnippetModel.Insert\<close>: the INSERT statement stamps the row with the database clock and
  adds the interval in days for the expiry.\<close>

definition SnippetModel_Insert :: "string \<Rightarrow> string \<Rightarrow> int \<Rightarrow> db \<Rightarrow> (error + int) \<times> db" where
  "SnippetModel_Insert title content expires d =
     (case exec_err d of
        Some e \<Rightarrow> (Inl (OtherError e), d)
      | None \<Rightarrow>
          (let row = \<lparr>ID = next_id d, Title = title, Content = content,
                      Created = clock d, Expires = clock d + expires * day\<rparr>;
               d1 = d\<lparr>rows := rows d @ [row], next_id := next_id d + 1\<rparr>
           in case lastid_err d of
                Some e \<Rightarrow> (Inl (OtherError e), d1)
              | None \<Rightarrow> (Inr (next_id d), d1)))"

text \<open>\<open>SnippetModel.Get\<close>: \<open>SELECT ... WHERE expires > UTC_TIMESTAMP() AND id = ?\<close>;
  \<open>row.Scan\<close> yields \<open>sql.ErrNoRows\<close> when no row is selected, which Get turns into
  \<open>ErrNoRecord\<close>; any other error is returned as it is.\<close>

definition SnippetModel_Get :: "int \<Rightarrow> db \<Rightarrow> error + Snippet" where
  "SnippetModel_Get i d =
     (case exec_err d of
        Some e \<Rightarrow> Inl (OtherError e)
      | None \<Rightarrow>
          (case find (\<lambda>s. Expires s > clock d \<and> ID s = i) (rows d) of
             None \<Rightarrow> Inl ErrNoRecord
           | Some s \<Rightarrow> Inr s))"

text \<open>\<open>SnippetModel.Latest\<close>: \<open>... WHERE expires > UTC_TIMESTAMP() ORDER BY id DESC LIMIT 10\<close>.\<close>

definition SnippetModel_Latest :: "db \<Rightarrow> error + Snippet list" where
  "SnippetModel_Latest d =
     (case exec_err d of
        Some e \<Rightarrow> Inl (OtherError e)
      | None \<Rightarrow> Inr (take 10 (rev (sort_key ID (filter (\<lambda>s. Expires s > clock d) (rows d))))))"

text \<open>Modelled from the spec: the user model (internal/models/users.go) is not among the
  sources. The spec gives a user as id, name, unique email and password hash, and says that
  inserting a user whose email is already present yields the DuplicateEmail condition, any other
  failure being a generic one; ExistsByID tells whether a user id is still present.\<close>

record User =
  user_ID :: int
  user_Name :: string
  user_Email :: string
  user_HashedPassword :: string

record users_db =
  user_rows :: "User list"
  user_next_id :: int
  user_exec_err :: "string option"
  hash_password :: "string \<Rightarrow> string"

definition UserModel_Insert :: "string \<Rightarrow> string \<Rightarrow> string \<Rightarrow> users_db \<Rightarrow> error option \<times> users_db" where
  "UserModel_Insert name email password u =
     (case user_exec_err u of
        Some e \<Rightarrow> (Some (OtherError e), u)
      | None \<Rightarrow>
          if email \<in> set (map user_Email (user_rows u)) then (Some ErrDuplicateEmail, u)
          else (None, u\<lparr>user_rows := user_rows u @
                  [\<lparr>user_ID = user_next_id u, user_Name = name, user_Email = email,
                    user_HashedPassword = hash_password u password\<rparr>],
                 user_next_id := user_next_id u + 1\<rparr>))"

definition UserModel_Exists :: "int \<Rightarrow> users_db \<Rightarrow> bool" where
  "UserModel_Exists i u = (i \<in> set (map user_ID (user_rows u)))"

section \<open>The application and a request in flight\<close>

text \<open>The form decoder (go-playground/form) is an external collaborator: decoding the posted
  values into a destination struct gives the filled struct or an error, and an
  \<open>InvalidDecoderError\<close> is the error for a destination that cannot be decoded into.\<close>

datatype decode_error = InvalidDecoderError string | DecodeErrors string

type_synonym url_Values = "(string \<times> string list) list"

record form_Decoder =
  Decode_snippetCreateForm :: "snippetCreateForm \<Rightarrow> url_Values \<Rightarrow> decode_error + snippetCreateForm"
  Decode_userSignupForm :: "userSignupForm \<Rightarrow> url_Values \<Rightarrow> decode_error + userSignupForm"

text \<open>Values kept in the session data.\<close>

datatype sval = SString string | SInt int

type_synonym session_data = "(string \<times> sval) list"

datatype terminal = H_static | H_ping | H_home | H_snippetView | H_snippetCreate
  | H_snippetCreatePost | H_userSignup | H_userSignupPost | H_userLogin | H_userLoginPost
  | H_userLogoutPost

text \<open>What a request did to its collaborators, in order: a ghost log that makes calls
  observable which leave the state as it was.\<close>

datatype event =
    SessionLoad string
  | SessionCommit string
  | StoreLatest
  | StoreGet int
  | StoreInsert string string int
  | UsersInsert string string
  | UsersExists int
  | Invoked terminal

text \<open>The \<open>application\<close> struct: the two loggers (what they have printed), the two models,
  the template cache, the form decoder and the session manager (its backing store, token to
  data). Three parts that the sources do not give are parameters kept beside them: \<open>EmailRX\<close>,
  the pattern of the missing validator package; the headers the missing \<open>secureHeaders\<close>
  middleware sets; the embedded static files (path to content).\<close>

record application =
  errorLog :: "string list"
  infoLog :: "string list"
  snippets :: db
  users :: users_db
  templateCache :: "(string \<times> template) list"
  formDecoder :: form_Decoder
  sessionManager :: "(string \<times> session_data) list"
  EmailRX :: "string \<Rightarrow> bool"
  securityHeaders :: header
  staticFiles :: "(string \<times> string) list"

text \<open>The state a handler works on: the application, the response writer it was given, the
  session data that the session middleware loaded into the request context, the ghost log, and
  the panic in flight, if any.\<close>

record conn = application +
  rw :: response_writer
  session :: session_data
  trace :: "event list"
  panicked :: "string option"

text \<open>The request: method and path, the parameters httprouter put into the context, the
  outcome of \<open>ParseForm\<close> and the posted values, the session cookie, the values the middleware
  put into the context, the year on the wall clock, the remote address, and the random tokens the
  server would draw for this request (a session token, a CSRF secret).\<close>

record request =
  Method :: string
  URL_Path :: string
  Params :: "(string \<times> string) list"
  ParseForm_err :: "string option"
  PostForm :: url_Values
  Cookie :: string
  ctx_isAuthenticated :: "bool option"
  ctx_csrfToken :: string
  Year :: int
  RemoteAddr :: string
  fresh_session_token :: string
  fresh_csrf_secret :: string

type_synonym handler = "request \<Rightarrow> conn \<Rightarrow> conn"

section \<open>Helpers\<close>

text \<open>\<open>serverError\<close> prints message and stack trace to the error log and sends the generic 500
  response.\<close>

definition serverError :: "error \<Rightarrow> conn \<Rightarrow> conn" where
  "serverError err c =
     c\<lparr>errorLog := errorLog c @ [error_Error err],
       rw := http_Error (StatusText StatusInternalServerError) StatusInternalServerError (rw c)\<rparr>"

definition clientError :: "nat \<Rightarrow> conn \<Rightarrow> conn" where
  "clientError status c = c\<lparr>rw := http_Error (StatusText status) status (rw c)\<rparr>"

definition notFound :: "conn \<Rightarrow> conn" where
  "notFound c = clientError StatusNotFound c"

definition render :: "nat \<Rightarrow> string \<Rightarrow> templateData \<Rightarrow> conn \<Rightarrow> conn" where
  "render status page data c =
     (case map_of (templateCache c) page of
        None \<Rightarrow> serverError (OtherError (''the template '' @ page @ '' does not exist'')) c
      | Some ts \<Rightarrow>
          (case ts data of
             (buf, Some err) \<Rightarrow> serverError err c
           | (buf, None) \<Rightarrow> c\<lparr>rw := Write buf (WriteHeader status (rw c))\<rparr>))"

text \<open>\<open>isAuthenticated\<close>: the context value, false when it is absent.\<close>

definition isAuthenticated :: "request \<Rightarrow> bool" where
  "isAuthenticated r = (case ctx_isAuthenticated r of None \<Rightarrow> False | Some b \<Rightarrow> b)"

text \<open>\<open>PopString\<close> of the session manager: the string under the key, removed from the session
  data; the empty string when there is none.\<close>

definition PopString :: "string \<Rightarrow> conn \<Rightarrow> string \<times> conn" where
  "PopString key c =
     ((case map_of (session c) key of Some (SString s) \<Rightarrow> s | _ \<Rightarrow> []),
      c\<lparr>session := AList.delete key (session c)\<rparr>)"

definition Put :: "string \<Rightarrow> sval \<Rightarrow> conn \<Rightarrow> conn" where
  "Put key v c = c\<lparr>session := AList.update key v (session c)\<rparr>"

definition newTemplateData :: "request \<Rightarrow> conn \<Rightarrow> templateData \<times> conn" where
  "newTemplateData r c =
     (let (flash, c1) = PopString ''flash'' c
      in (\<lparr>CurrentYear = Year r, td_Snippet = None, td_Snippets = [], td_Form = NoForm,
           Flash = flash, IsAuthenticated = isAuthenticated r, CSRFToken = ctx_csrfToken r\<rparr>, c1))"

text \<open>\<open>Decode\<close> of the form decoder on one of the form structs. Their embedded validator
  carries the tag \<open>form:"-"\<close>, which makes the decoder leave that field of the destination
  alone.\<close>

definition Decode ::
  "('a Validator_scheme \<Rightarrow> url_Values \<Rightarrow> decode_error + 'a Validator_scheme) \<Rightarrow>
   'a Validator_scheme \<Rightarrow> url_Values \<Rightarrow> decode_error + 'a Validator_scheme" where
  "Decode dec dst vs =
     (case dec dst vs of
        Inl e \<Rightarrow> Inl e
      | Inr f \<Rightarrow> Inr (f\<lparr>FieldErrors := FieldErrors dst\<rparr>))"

text \<open>\<open>decodePostForm\<close>: the error of \<open>ParseForm\<close> is returned; an \<open>InvalidDecoderError\<close> of the
  decoder is raised as a panic; any other decoder error is returned.\<close>

datatype 'a outcome = Panic string | Failed string | Done 'a

definition decodePostForm ::
  "('a Validator_scheme \<Rightarrow> url_Values \<Rightarrow> decode_error + 'a Validator_scheme) \<Rightarrow>
   request \<Rightarrow> 'a Validator_scheme \<Rightarrow> 'a Validator_scheme outcome" where
  "decodePostForm dec r dst =
     (case ParseForm_err r of
        Some e \<Rightarrow> Failed e
      | None \<Rightarrow>
          (case Decode dec dst (PostForm r) of
             Inl (InvalidDecoderError e) \<Rightarrow> Panic e
           | Inl (DecodeErrors e) \<Rightarrow> Failed e
           | Inr f \<Rightarrow> Done f))"

section \<open>Library functions the handlers call\<close>

text \<open>\<open>strconv.Atoi\<close>: an optional sign, then at least one decimal digit and nothing else; a
  value outside the range of a 64-bit \<open>int\<close> is an error.\<close>

definition digit_val :: "char \<Rightarrow> nat option" where
  "digit_val c = (let n = (of_char c :: nat) in if 48 \<le> n \<and> n \<le> 57 then Some (n - 48) else None)"

fun parse_digits :: "string \<Rightarrow> nat \<Rightarrow> nat option" where
  "parse_digits [] acc = Some acc"
| "parse_digits (c # cs) acc =
     (case digit_val c of None \<Rightarrow> None | Some v \<Rightarrow> parse_digits cs (acc * 10 + v))"

definition Atoi :: "string \<Rightarrow> int option" where
  "Atoi s =
     (let (neg, ds) =
            (case s of
               [] \<Rightarrow> (False, [])
             | c # cs \<Rightarrow> if c = CHR ''-'' then (True, cs)
                         else if c = CHR ''+'' then (False, cs) else (False, s))
      in if ds = [] then None
         else case parse_digits ds 0 of
                None \<Rightarrow> None
              | Some n \<Rightarrow>
                  (let v = (if neg then - int n else int n)
                   in if v < - (2 ^ 63) \<or> v > 2 ^ 63 - 1 then None else Some v))"

text \<open>The verb \<open>%d\<close> of \<open>fmt.Sprintf\<close>: the decimal digits, after a minus sign for a negative
  number.\<close>

definition digit_char :: "nat \<Rightarrow> char" where
  "digit_char n = ''0123456789'' ! (n mod 10)"

fun nat_digits :: "nat \<Rightarrow> string" where
  "nat_digits n =
     (if n < 10 then [digit_char n]
      else nat_digits (n div 10) @ [digit_char (n mod 10)])"

declare nat_digits.simps [simp del]

definition Sprintf_d :: "int \<Rightarrow> string" where
  "Sprintf_d i = (if i < 0 then CHR ''-'' # nat_digits (nat (- i)) else nat_digits (nat i))"

text \<open>\<open>Params.ByName\<close> of httprouter: the value of the first parameter of that name, the empty
  string when there is none.\<close>

definition ByName :: "(string \<times> string) list \<Rightarrow> string \<Rightarrow> string" where
  "ByName ps name = (case map_of ps name of None \<Rightarrow> [] | Some v \<Rightarrow> v)"

text \<open>\<open>http.Redirect\<close> for a target that is already a clean absolute path of ASCII characters,
  as all targets of the handlers are: it sets \<open>Location\<close>, writes the status, and sends a
  short HTML body only for a GET request that has no content type yet.\<close>

definition htmlEscape :: "string \<Rightarrow> string" where
  "htmlEscape s =
     concat (map (\<lambda>c. if c = CHR ''&'' then ''&amp;''
                       else if c = CHR ''<'' then ''&lt;''
                       else if c = CHR ''>'' then ''&gt;''
                       else if c = CHR 0x22 then ''&#34;''
                       else if c = CHR 0x27 then ''&#39;''
                       else [c]) s)"

definition Redirect :: "request \<Rightarrow> string \<Rightarrow> nat \<Rightarrow> response_writer \<Rightarrow> response_writer" where
  "Redirect r url code w =
     (let hadCT = (map_of (hdr w) ''Content-Type'' \<noteq> None);
          w1 = header_Set ''Location'' url w;
          w2 = (if \<not> hadCT \<and> (Method r = ''GET'' \<or> Method r = ''HEAD'')
                then header_Set ''Content-Type'' ''text/html; charset=utf-8'' w1 else w1);
          w3 = WriteHeader code w2
      in if \<not> hadCT \<and> Method r = ''GET''
         then Fprintln (''<a href='' @ [CHR 0x22] @ htmlEscape url @ [CHR 0x22] @ ''>''
                          @ StatusText code @ ''</a>.'' @ [CHR 0x0A]) w3
         else w3)"

section \<open>Handlers\<close>

definition log_call :: "event \<Rightarrow> conn \<Rightarrow> conn" where
  "log_call e c = c\<lparr>trace := trace c @ [e]\<rparr>"

definition home :: handler where
  "home r c =
     (let c1 = log_call StoreLatest c
      in case SnippetModel_Latest (snippets c1) of
           Inl err \<Rightarrow> serverError err c1
         | Inr ss \<Rightarrow>
             (let (data, c2) = newTemplateData r c1
              in render StatusOK ''home.tmpl'' (data\<lparr>td_Snippets := ss\<rparr>) c2))"

definition snippetView :: handler where
  "snippetView r c =
     (case Atoi (ByName (Params r) ''id'') of
        None \<Rightarrow> notFound c
      | Some i \<Rightarrow>
          if i < 1 then notFound c
          else
            (let c1 = log_call (StoreGet i) c
             in case SnippetModel_Get i (snippets c1) of
                  Inl err \<Rightarrow> if err = ErrNoRecord then notFound c1 else serverError err c1
                | Inr snippet \<Rightarrow>
                    (let (data, c2) = newTemplateData r c1
                     in render StatusOK ''view.tmpl'' (data\<lparr>td_Snippet := Some snippet\<rparr>) c2)))"

definition snippetCreate :: handler where
  "snippetCreate r c =
     (let (data, c1) = newTemplateData r c
      in render StatusOK ''create.tmpl''
           (data\<lparr>td_Form := SnippetForm (zero_snippetCreateForm\<lparr>form_Expires := 365\<rparr>)\<rparr>) c1)"

text \<open>The four checks of \<open>snippetCreatePost\<close>, in the order of the source.\<close>

definition snippetCreate_checks :: "snippetCreateForm \<Rightarrow> snippetCreateForm" where
  "snippetCreate_checks form =
     (let f1 = CheckField (NotBlank (form_Title form)) ''title'' ''This field cannot be blank'' form;
          f2 = CheckField (MaxChars (form_Title f1) 100) ''title''
                 ''This field cannot be more than 100 characters long'' f1;
          f3 = CheckField (NotBlank (form_Content f2)) ''content'' ''This field cannot be blank'' f2;
          f4 = CheckField (PermittedInt (form_Expires f3) [1, 7, 365]) ''expires''
                 ''This field must equal 1, 7 or 365'' f3
      in f4)"

definition snippetCreatePost :: handler where
  "snippetCreatePost r c =
     (case decodePostForm (Decode_snippetCreateForm (formDecoder c)) r zero_snippetCreateForm of
        Panic e \<Rightarrow> c\<lparr>panicked := Some e\<rparr>
      | Failed e \<Rightarrow> clientError StatusBadRequest c
      | Done form0 \<Rightarrow>
          (case Decode (Decode_snippetCreateForm (formDecoder c)) form0 (PostForm r) of
             Inl e \<Rightarrow> clientError StatusBadRequest c
           | Inr form1 \<Rightarrow>
               (let form = snippetCreate_checks form1
                in if \<not> Valid form then
                     (let (data, c1) = newTemplateData r c
                      in render StatusUnprocessableEntity ''create.tmpl''
                           (data\<lparr>td_Form := SnippetForm form\<rparr>) c1)
                   else
                     (let c1 = log_call (StoreInsert (form_Title form) (form_Content form) (form_Expires form)) c
                      in case SnippetModel_Insert (form_Title form) (form_Content form)
                                (form_Expires form) (snippets c1) of
                           (Inl err, d) \<Rightarrow> serverError err (c1\<lparr>snippets := d\<rparr>)
                         | (Inr i, d) \<Rightarrow>
                             (let c2 = Put ''flash'' (SString ''Snippet successfully created!'')
                                         (c1\<lparr>snippets := d\<rparr>)
                              in c2\<lparr>rw := Redirect r (''/snippet/view/'' @ Sprintf_d i)
                                              StatusSeeOther (rw c2)\<rparr>)))))"

definition userSignup :: handler where
  "userSignup r c =
     (let (data, c1) = newTemplateData r c
      in render StatusOK ''signup.tmpl'' (data\<lparr>td_Form := SignupForm zero_userSignupForm\<rparr>) c1)"

definition userSignup_checks :: "(string \<Rightarrow> bool) \<Rightarrow> userSignupForm \<Rightarrow> userSignupForm" where
  "userSignup_checks rx form =
     (let f1 = CheckField (NotBlank (form_Name form)) ''name'' ''This field cannot be blank'' form;
          f2 = CheckField (NotBlank (form_Email f1)) ''email'' ''This field cannot be blank'' f1;
          f3 = CheckField (Matches (form_Email f2) rx) ''email''
                 ''This field must be a valid email address'' f2;
          f4 = CheckField (NotBlank (form_Password f3)) ''password'' ''This field cannot be blank'' f3;
          f5 = CheckField (MinChars (form_Password f4) 8) ''password''
                 ''This field must be at least 8 characters long'' f4
      in f5)"

text \<open>\<open>userSignupPost\<close>. The branch that handles the error of \<open>users.Insert\<close> has no
  \<open>return\<close>: the statements after it run on every path that reaches the insert.\<close>

definition userSignupPost :: handler where
  "userSignupPost r c =
     (case decodePostForm (Decode_userSignupForm (formDecoder c)) r zero_userSignupForm of
        Panic e \<Rightarrow> c\<lparr>panicked := Some e\<rparr>
      | Failed e \<Rightarrow> clientError StatusBadRequest c
      | Done form0 \<Rightarrow>
          (let form = userSignup_checks (EmailRX c) form0
           in if \<not> Valid form then
                (let (data, c1) = newTemplateData r c
                 in render StatusUnprocessableEntity ''signup.tmpl''
                      (data\<lparr>td_Form := SignupForm form\<rparr>) c1)
              else
                (let c1 = log_call (UsersInsert (form_Name form) (form_Email form)) c;
                     (err, u) = UserModel_Insert (form_Name form) (form_Email form)
                                  (form_Password form) (users c1);
                     c2 = c1\<lparr>users := u\<rparr>;
                     c3 = (case err of
                             None \<Rightarrow> c2
                           | Some e \<Rightarrow>
                               if e = ErrDuplicateEmail then
                                 (let form' = AddFieldError ''email''
                                                ''Email address is already in use'' form;
                                      (data, c') = newTemplateData r c2
                                  in render StatusUnprocessableEntity ''signup.tmpl''
                                       (data\<lparr>td_Form := SignupForm form'\<rparr>) c')
                               else serverError e c2);
                     c4 = Put ''flash'' (SString ''Your signup was succesful. Please log in'') c3
                 in c4\<lparr>rw := Redirect r ''/user/login'' StatusSeeOther (rw c4)\<rparr>)))"

definition userLogin :: handler where
  "userLogin r c = c\<lparr>rw := Fprintln ''Display a HTML form for logging in  a user'' (rw c)\<rparr>"

definition userLoginPost :: handler where
  "userLoginPost r c = c\<lparr>rw := Fprintln ''Authenticate and login the user...'' (rw c)\<rparr>"

definition userLogoutPost :: handler where
  "userLogoutPost r c = c\<lparr>rw := Fprintln ''Logout the user...'' (rw c)\<rparr>"

section \<open>Middleware\<close>

type_synonym middleware = "handler \<Rightarrow> handler"

text \<open>Modelled from the spec: the file with the middleware of this repository (recoverPanic,
  logRequest, secureHeaders, noSurf, authenticate, requireAuthentication) is not among the
  sources, and the session middleware belongs to the session library. Each definition below
  follows the spec's description of the interceptor of that name.\<close>

text \<open>Modelled from the spec: recoverPanic catches any panic raised downstream, logs it, writes
  a generic 500 if no response has been committed yet, and marks the connection for closure.\<close>

definition recoverPanic :: middleware where
  "recoverPanic next r c =
     (let c1 = next r c
      in case panicked c1 of
           None \<Rightarrow> c1
         | Some e \<Rightarrow>
             (let c2 = c1\<lparr>panicked := None, rw := header_Set ''Connection'' ''close'' (rw c1)\<rparr>
              in if wire (rw c2) = None then serverError (OtherError e) c2
                 else c2\<lparr>errorLog := errorLog c2 @ [e]\<rparr>))"

text \<open>Modelled from the spec: logRequest records method, URL and remote address before
  dispatch and never errors.\<close>

definition request_line :: "request \<Rightarrow> string" where
  "request_line r = RemoteAddr r @ '' - '' @ Method r @ '' '' @ URL_Path r"

definition logRequest :: middleware where
  "logRequest next r c = next r (c\<lparr>infoLog := infoLog c @ [request_line r]\<rparr>)"

text \<open>Modelled from the spec: secureHeaders sets the security-related response headers before
  dispatch, unconditionally.\<close>

definition secureHeaders :: middleware where
  "secureHeaders next r c =
     next r (c\<lparr>rw := fold (\<lambda>(k, v). header_Set k v) (securityHeaders c) (rw c)\<rparr>)"

text \<open>Modelled from the spec: sessionLoadAndSave loads the session data for the request's token
  before the inner chain runs (an empty session under a new token when the request carries no
  valid one), and after the inner chain has returned, whatever its outcome, persists the
  session data and, if the session was new, sets the response cookie. The cookie is part of the
  headers that go out with the status line.\<close>

definition session_token :: "request \<Rightarrow> conn \<Rightarrow> string" where
  "session_token r c =
     (if map_of (sessionManager c) (Cookie r) \<noteq> None then Cookie r else fresh_session_token r)"

definition session_Load :: "request \<Rightarrow> conn \<Rightarrow> session_data" where
  "session_Load r c =
     (case map_of (sessionManager c) (Cookie r) of None \<Rightarrow> [] | Some d \<Rightarrow> d)"

definition set_cookie :: "string \<Rightarrow> response_writer \<Rightarrow> response_writer" where
  "set_cookie token w =
     w\<lparr>hdr := AList.update ''Set-Cookie'' (''session='' @ token) (hdr w),
       wire := map_option (\<lambda>(st, h). (st, AList.update ''Set-Cookie'' (''session='' @ token) h)) (wire w)\<rparr>"

definition LoadAndSave :: middleware where
  "LoadAndSave next r c =
     (let token = session_token r c;
          c1 = log_call (SessionLoad token) (c\<lparr>session := session_Load r c\<rparr>);
          c2 = next r c1;
          c3 = log_call (SessionCommit token)
                 (c2\<lparr>sessionManager := AList.update token (session c2) (sessionManager c2)\<rparr>)
      in if token \<noteq> Cookie r then c3\<lparr>rw := set_cookie token (rw c3)\<rparr> else c3)"

text \<open>Modelled from the spec: the CSRF guard. For a state-changing method it compares the
  submitted token with the secret bound to the session; on mismatch or absence it answers 400
  and does not invoke the inner handler. For a safe method it makes sure that a token is there
  to be embedded in rendered forms.\<close>

definition safe_method :: "string \<Rightarrow> bool" where
  "safe_method m = (m = ''GET'' \<or> m = ''HEAD'' \<or> m = ''OPTIONS'' \<or> m = ''TRACE'')"

definition submitted_token :: "request \<Rightarrow> string option" where
  "submitted_token r =
     (case map_of (PostForm r) ''csrf_token'' of Some (v # vs) \<Rightarrow> Some v | _ \<Rightarrow> None)"

definition session_secret :: "session_data \<Rightarrow> string option" where
  "session_secret d = (case map_of d ''csrf'' of Some (SString s) \<Rightarrow> Some s | _ \<Rightarrow> None)"

definition csrf_matches :: "request \<Rightarrow> session_data \<Rightarrow> bool" where
  "csrf_matches r d =
     (case session_secret d of None \<Rightarrow> False | Some s \<Rightarrow> submitted_token r = Some s)"

definition noSurf :: middleware where
  "noSurf next r c =
     (if safe_method (Method r) then
        (case session_secret (session c) of
           Some s \<Rightarrow> next (r\<lparr>ctx_csrfToken := s\<rparr>) c
         | None \<Rightarrow> next (r\<lparr>ctx_csrfToken := fresh_csrf_secret r\<rparr>)
                     (Put ''csrf'' (SString (fresh_csrf_secret r)) c))
      else
        (case session_secret (session c) of
           Some s \<Rightarrow> if submitted_token r = Some s then next (r\<lparr>ctx_csrfToken := s\<rparr>) c
                     else clientError StatusBadRequest c
         | None \<Rightarrow> clientError StatusBadRequest c))"

text \<open>Modelled from the spec: authenticate reads an optional user id from the session; if the
  user still exists it marks the request as authenticated; for a stale id it clears the
  session's entry and goes on as anonymous. It never aborts the request.\<close>

definition authenticate :: middleware where
  "authenticate next r c =
     (case map_of (session c) ''authenticatedUserID'' of
        Some (SInt i) \<Rightarrow>
          (let c1 = log_call (UsersExists i) c
           in if UserModel_Exists i (users c1) then next (r\<lparr>ctx_isAuthenticated := Some True\<rparr>) c1
              else next r (c1\<lparr>session := AList.delete ''authenticatedUserID'' (session c1)\<rparr>))
      | _ \<Rightarrow> next r c)"

text \<open>Modelled from the spec: requireAuthentication, for a request that is not authenticated,
  stores the requested path for the redirect after login and redirects to the login route
  without running the handler.\<close>

definition requireAuthentication :: middleware where
  "requireAuthentication next r c =
     (if \<not> isAuthenticated r then
        (let c1 = Put ''redirectPathAfterLogin'' (SString (URL_Path r)) c
         in c1\<lparr>rw := Redirect r ''/user/login'' StatusSeeOther (rw c1)\<rparr>)
      else next r c)"

section \<open>Chains and the router\<close>

text \<open>A composed handler is written down as the term that \<open>routes()\<close> builds: a core wrapped
  in named middleware, the outermost first. \<open>alice.New\<close> keeps the constructors in
  registration order, \<open>Append\<close> adds to the end, and \<open>Then\<close> applies them from the last to the
  first, so that the first one registered ends up outermost.\<close>

datatype mw = RecoverPanic | LogRequest | SecureHeaders | SessionLoadAndSave | NoSurf
  | Authenticate | RequireAuthentication

datatype 'a hnd = Final 'a | Wrap mw "'a hnd"

type_synonym chain = "mw list"

definition alice_New :: "mw list \<Rightarrow> chain" where
  "alice_New ms = ms"

definition alice_Append :: "chain \<Rightarrow> mw list \<Rightarrow> chain" where
  "alice_Append ch ms = ch @ ms"

definition alice_Then :: "chain \<Rightarrow> 'a hnd \<Rightarrow> 'a hnd" where
  "alice_Then ch h = foldr Wrap ch h"

definition alice_ThenFunc :: "chain \<Rightarrow> 'a \<Rightarrow> 'a hnd" where
  "alice_ThenFunc ch f = alice_Then ch (Final f)"

primrec layers :: "'a hnd \<Rightarrow> mw list" where
  "layers (Final a) = []"
| "layers (Wrap m h) = m # layers h"

primrec core :: "'a hnd \<Rightarrow> 'a" where
  "core (Final a) = a"
| "core (Wrap m h) = core h"

fun mw_sem :: "mw \<Rightarrow> middleware" where
  "mw_sem RecoverPanic = recoverPanic"
| "mw_sem LogRequest = logRequest"
| "mw_sem SecureHeaders = secureHeaders"
| "mw_sem SessionLoadAndSave = LoadAndSave"
| "mw_sem NoSurf = noSurf"
| "mw_sem Authenticate = authenticate"
| "mw_sem RequireAuthentication = requireAuthentication"

primrec serve :: "('a \<Rightarrow> handler) \<Rightarrow> 'a hnd \<Rightarrow> handler" where
  "serve t (Final a) = t a"
| "serve t (Wrap m h) = mw_sem m (serve t h)"

text \<open>Modelled from the spec: the \<open>ping\<close> handler is not among the sources; the spec has it
  answer 200 with the body OK.\<close>

definition ping :: handler where
  "ping r c = c\<lparr>rw := Write ''OK'' (rw c)\<rparr>"

text \<open>The file server over the embedded files: the content of the file at the request path,
  or 404.\<close>

definition fileServer :: handler where
  "fileServer r c =
     (case map_of (staticFiles c) (URL_Path r) of
        None \<Rightarrow> c\<lparr>rw := http_Error ''404 page not found'' StatusNotFound (rw c)\<rparr>
      | Some content \<Rightarrow> c\<lparr>rw := Write content (rw c)\<rparr>)"

fun run_terminal :: "terminal \<Rightarrow> handler" where
  "run_terminal H_static = fileServer"
| "run_terminal H_ping = ping"
| "run_terminal H_home = home"
| "run_terminal H_snippetView = snippetView"
| "run_terminal H_snippetCreate = snippetCreate"
| "run_terminal H_snippetCreatePost = snippetCreatePost"
| "run_terminal H_userSignup = userSignup"
| "run_terminal H_userSignupPost = userSignupPost"
| "run_terminal H_userLogin = userLogin"
| "run_terminal H_userLoginPost = userLoginPost"
| "run_terminal H_userLogoutPost = userLogoutPost"

definition terminal_sem :: "terminal \<Rightarrow> handler" where
  "terminal_sem t r c = run_terminal t r (log_call (Invoked t) c)"

text \<open>Modelled from the spec: the router (httprouter) maps method and path pattern to a
  handler; patterns have named segments and a catch-all tail; a path that no pattern matches
  goes to the not-found handler, and a path that matches under another method only is answered
  405 with an \<open>Allow\<close> header listing the methods registered for it.\<close>

fun split_slash :: "string \<Rightarrow> string list" where
  "split_slash [] = [[]]"
| "split_slash (c # cs) =
     (if c = CHR ''/'' then [] # split_slash cs
      else (case split_slash cs of [] \<Rightarrow> [[c]] | x # xs \<Rightarrow> (c # x) # xs))"

fun join_slash :: "string list \<Rightarrow> string" where
  "join_slash [] = []"
| "join_slash [x] = x"
| "join_slash (x # y # xs) = x @ ''/'' @ join_slash (y # xs)"

fun match_segs :: "string list \<Rightarrow> string list \<Rightarrow> (string \<times> string) list option" where
  "match_segs [] [] = Some []"
| "match_segs [] (x # xs) = None"
| "match_segs (p # ps) xs =
     (case p of
        c # name \<Rightarrow>
          if c = CHR ''*'' then Some [(name, ''/'' @ join_slash xs)]
          else if c = CHR '':'' then
            (case xs of
               [] \<Rightarrow> None
             | x # xs' \<Rightarrow> if x = [] then None
                          else map_option ((#) (name, x)) (match_segs ps xs'))
          else (case xs of
                  [] \<Rightarrow> None
                | x # xs' \<Rightarrow> if x = p then match_segs ps xs' else None)
      | [] \<Rightarrow> (case xs of
                 [] \<Rightarrow> None
               | x # xs' \<Rightarrow> if x = [] then match_segs ps xs' else None))"

definition match_pattern :: "string \<Rightarrow> string \<Rightarrow> (string \<times> string) list option" where
  "match_pattern pat path = match_segs (split_slash pat) (split_slash path)"

record route =
  route_method :: string
  route_pattern :: string
  route_handler :: "terminal hnd"

type_synonym router = "route list"

definition router_Handler :: "string \<Rightarrow> string \<Rightarrow> terminal hnd \<Rightarrow> router \<Rightarrow> router" where
  "router_Handler m p h rt =
     rt @ [\<lparr>route_method = m, route_pattern = p, route_handler = h\<rparr>]"

definition router_HandlerFunc :: "string \<Rightarrow> string \<Rightarrow> terminal \<Rightarrow> router \<Rightarrow> router" where
  "router_HandlerFunc m p f rt = router_Handler m p (Final f) rt"

fun lookup_route :: "router \<Rightarrow> string \<Rightarrow> string \<Rightarrow> (terminal hnd \<times> (string \<times> string) list) option" where
  "lookup_route [] m path = None"
| "lookup_route (rt # rts) m path =
     (if route_method rt = m then
        (case match_pattern (route_pattern rt) path of
           Some ps \<Rightarrow> Some (route_handler rt, ps)
         | None \<Rightarrow> lookup_route rts m path)
      else lookup_route rts m path)"

definition allowed_methods :: "router \<Rightarrow> string \<Rightarrow> string list" where
  "allowed_methods rt path =
     remdups (map route_method (filter (\<lambda>x. match_pattern (route_pattern x) path \<noteq> None) rt))"

fun join_comma :: "string list \<Rightarrow> string" where
  "join_comma [] = []"
| "join_comma [x] = x"
| "join_comma (x # y # xs) = x @ '', '' @ join_comma (y # xs)"

definition router_ServeHTTP :: "router \<Rightarrow> handler" where
  "router_ServeHTTP rt r c =
     (case lookup_route rt (Method r) (URL_Path r) of
        Some (h, ps) \<Rightarrow> serve terminal_sem h (r\<lparr>Params := ps\<rparr>) c
      | None \<Rightarrow>
          (let allow = allowed_methods rt (URL_Path r)
           in if allow \<noteq> [] then
                c\<lparr>rw := http_Error (StatusText StatusMethodNotAllowed) StatusMethodNotAllowed
                           (header_Set ''Allow'' (join_comma allow) (rw c))\<rparr>
              else notFound c))"

text \<open>\<open>routes()\<close> of cmd/web/routes.go, statement by statement.\<close>

definition MethodGet :: string where "MethodGet = ''GET''"
definition MethodPost :: string where "MethodPost = ''POST''"

definition dynamic :: chain where
  "dynamic = alice_New [SessionLoadAndSave, NoSurf, Authenticate]"

definition protected :: chain where
  "protected = alice_Append dynamic [RequireAuthentication]"

definition standard :: chain where
  "standard = alice_New [RecoverPanic, LogRequest, SecureHeaders]"

definition the_router :: router where
  "the_router =
     (let router = [];
          router = router_Handler MethodGet ''/static/*filepath'' (Final H_static) router;
          router = router_HandlerFunc MethodGet ''/ping'' H_ping router;
          router = router_Handler MethodGet ''/'' (alice_ThenFunc dynamic H_home) router;
          router = router_Handler MethodGet ''/snippet/view/:id'' (alice_ThenFunc dynamic H_snippetView) router;
          router = router_Handler MethodGet ''/user/signup'' (alice_ThenFunc dynamic H_userSignup) router;
          router = router_Handler MethodPost ''/user/signup'' (alice_ThenFunc dynamic H_userSignupPost) router;
          router = router_Handler MethodGet ''/user/login'' (alice_ThenFunc dynamic H_userLogin) router;
          router = router_Handler MethodPost ''/user/login'' (alice_ThenFunc dynamic H_userLoginPost) router;
          router = router_Handler MethodGet ''/snippet/create'' (alice_ThenFunc protected H_snippetCreate) router;
          router = router_Handler MethodPost ''/snippet/create'' (alice_ThenFunc protected H_snippetCreatePost) router;
          router = router_Handler MethodPost ''/user/logout'' (alice_ThenFunc protected H_userLogoutPost) router
      in router)"

definition routes :: "router hnd" where
  "routes = alice_Then standard (Final the_router)"

definition app_ServeHTTP :: handler where
  "app_ServeHTTP = serve router_ServeHTTP routes"

text \<open>The session events in the log of calls of a request.\<close>

fun is_session_event :: "event \<Rightarrow> bool" where
  "is_session_event (SessionLoad t) = True"
| "is_session_event (SessionCommit t) = True"
| "is_session_event e = False"

definition session_events :: "conn \<Rightarrow> event list" where
  "session_events c = filter is_session_event (trace c)"

section \<open>A concrete application\<close>

text \<open>A small instance of the application, on which the theorems below are exercised: four
  page templates (the view template fails half-way when it is given no snippet), a decoder
  that takes the first value of each field and reads the expiry with \<open>Atoi\<close>, an email pattern
  that asks for an at sign, and a store with one live and one expired snippet.\<close>

definition first_value :: "url_Values \<Rightarrow> string \<Rightarrow> string option" where
  "first_value vs k = (case map_of vs k of Some (v # rest) \<Rightarrow> Some v | _ \<Rightarrow> None)"

definition demo_decode_snippet :: "snippetCreateForm \<Rightarrow> url_Values \<Rightarrow> decode_error + snippetCreateForm" where
  "demo_decode_snippet dst vs =
     (let d1 = (case first_value vs ''title'' of None \<Rightarrow> dst | Some t \<Rightarrow> dst\<lparr>form_Title := t\<rparr>);
          d2 = (case first_value vs ''content'' of None \<Rightarrow> d1 | Some t \<Rightarrow> d1\<lparr>form_Content := t\<rparr>)
      in case first_value vs ''expires'' of
           None \<Rightarrow> Inr d2
         | Some e \<Rightarrow>
             if e = [] then Inr d2
             else (case Atoi e of
                     None \<Rightarrow> Inl (DecodeErrors ''Invalid Integer Value'')
                   | Some i \<Rightarrow> Inr (d2\<lparr>form_Expires := i\<rparr>)))"

definition demo_decode_signup :: "userSignupForm \<Rightarrow> url_Values \<Rightarrow> decode_error + userSignupForm" where
  "demo_decode_signup dst vs =
     (let d1 = (case first_value vs ''name'' of None \<Rightarrow> dst | Some t \<Rightarrow> dst\<lparr>form_Name := t\<rparr>);
          d2 = (case first_value vs ''email'' of None \<Rightarrow> d1 | Some t \<Rightarrow> d1\<lparr>form_Email := t\<rparr>);
          d3 = (case first_value vs ''password'' of None \<Rightarrow> d2 | Some t \<Rightarrow> d2\<lparr>form_Password := t\<rparr>)
      in Inr d3)"

definition show_form :: "form_any \<Rightarrow> string" where
  "show_form f =
     (case f of
        NoForm \<Rightarrow> []
      | SnippetForm x \<Rightarrow> form_Title x @ ''|'' @ form_Content x @ ''|'' @ Sprintf_d (form_Expires x)
                          @ ''|'' @ join_comma (map fst (FieldErrors x))
      | SignupForm x \<Rightarrow> form_Name x @ ''|'' @ form_Email x @ ''|''
                          @ join_comma (map fst (FieldErrors x)))"

definition demo_templates :: "(string \<times> template) list" where
  "demo_templates =
     [(''home.tmpl'', \<lambda>d. (''home:'' @ join_comma (map Title (td_Snippets d)), None)),
      (''view.tmpl'', \<lambda>d. (case td_Snippet d of
                              None \<Rightarrow> (''view:'', Some (OtherError ''nil pointer evaluating Snippet''))
                            | Some sn \<Rightarrow> (''view:'' @ Title sn @ ''|'' @ Content sn, None))),
      (''create.tmpl'', \<lambda>d. (''create:'' @ show_form (td_Form d), None)),
      (''signup.tmpl'', \<lambda>d. (''signup:'' @ show_form (td_Form d), None))]"

definition demo_db :: db where
  "demo_db =
     \<lparr>rows = [\<lparr>ID = 1, Title = ''An old silent pond'', Content = ''A frog jumps'',
               Created = 1000, Expires = 5000\<rparr>,
              \<lparr>ID = 2, Title = ''Over the wintry forest'', Content = ''winds howl'',
               Created = 1000, Expires = 2000\<rparr>],
      next_id = 3, clock = 2000, exec_err = None, lastid_err = None\<rparr>"

definition demo_users :: users_db where
  "demo_users =
     \<lparr>user_rows = [\<lparr>user_ID = 1, user_Name = ''Alice'', user_Email = ''alice@example.com'',
                    user_HashedPassword = ''#pa55word''\<rparr>],
      user_next_id = 2, user_exec_err = None, hash_password = (\<lambda>p. CHR ''#'' # p)\<rparr>"

definition demo_conn :: conn where
  "demo_conn =
     \<lparr>errorLog = [], infoLog = [], snippets = demo_db, users = demo_users,
      templateCache = demo_templates,
      formDecoder = \<lparr>Decode_snippetCreateForm = demo_decode_snippet,
                     Decode_userSignupForm = demo_decode_signup\<rparr>,
      sessionManager = [(''tok1'', [(''csrf'', SString ''secret1''), (''authenticatedUserID'', SInt 1)]),
                        (''tok2'', [(''csrf'', SString ''secret2'')])],
      EmailRX = (\<lambda>e. CHR ''@'' \<in> set e),
      securityHeaders = [(''X-Frame-Options'', ''deny'')],
      staticFiles = [(''/static/css/main.css'', ''body {}'')],
      rw = new_writer, session = [], trace = [], panicked = None\<rparr>"

definition demo_request :: request where
  "demo_request =
     \<lparr>Method = ''GET'', URL_Path = ''/'', Params = [], ParseForm_err = None, PostForm = [],
      Cookie = ''tok1'', ctx_isAuthenticated = None, ctx_csrfToken = [], Year = 2024,
      RemoteAddr = ''10.0.0.1:4000'', fresh_session_token = ''tok9'', fresh_csrf_secret = ''secret9''\<rparr>"

definition demo_data :: templateData where
  "demo_data =
     \<lparr>CurrentYear = 2024, td_Snippet = None, td_Snippets = [], td_Form = NoForm, Flash = [],
      IsAuthenticated = False, CSRFToken = []\<rparr>"

definition demo_post_invalid :: request where
  "demo_post_invalid =
     demo_request\<lparr>Method := ''POST'', URL_Path := ''/snippet/create'',
       PostForm := [(''title'', [[]]), (''content'', [''keep me'']), (''expires'', [''7''])]\<rparr>"

definition demo_post_valid :: request where
  "demo_post_valid =
     demo_request\<lparr>Method := ''POST'', URL_Path := ''/snippet/create'',
       PostForm := [(''title'', [''T'']), (''content'', [''C'']), (''expires'', [''7''])]\<rparr>"

definition demo_form_invalid :: snippetCreateForm where
  "demo_form_invalid = \<lparr>FieldErrors = [], form_Title = [], form_Content = ''keep me'', form_Expires = 7\<rparr>"

definition demo_form_valid :: snippetCreateForm where
  "demo_form_valid = \<lparr>FieldErrors = [], form_Title = ''T'', form_Content = ''C'', form_Expires = 7\<rparr>"

definition demo_signup_dup :: request where
  "demo_signup_dup =
     demo_request\<lparr>Method := ''POST'', URL_Path := ''/user/signup'',
       PostForm := [(''name'', [''Bob'']), (''email'', [''alice@example.com'']),
                    (''password'', [''pa55word1'' ])]\<rparr>"

definition demo_form_dup :: userSignupForm where
  "demo_form_dup =
     \<lparr>FieldErrors = [], form_Name = ''Bob'', form_Email = ''alice@example.com'',
      form_Password = ''pa55word1''\<rparr>"

definition demo_post_bad3 :: request where
  "demo_post_bad3 =
     demo_request\<lparr>Method := ''POST'', URL_Path := ''/snippet/create'',
       PostForm := [(''title'', [[]]), (''content'', ['' '']), (''expires'', [''2''])]\<rparr>"

definition demo_form_bad3 :: snippetCreateForm where
  "demo_form_bad3 = \<lparr>FieldErrors = [], form_Title = [], form_Content = '' '', form_Expires = 2\<rparr>"

section \<open>The response writer and render\<close>

lemma http_Error_body: "body (http_Error msg code w) = body w @ msg @ [CHR 0x0A]"
  by (simp add: http_Error_def Fprintln_def Write_def WriteHeader_def header_Set_def
      header_Del_def Let_def split: option.splits)

lemma http_Error_status_fresh: "wire w = None \<Longrightarrow> status_of (http_Error msg code w) = Some code"
  by (simp add: http_Error_def Fprintln_def Write_def WriteHeader_def header_Set_def
      header_Del_def Let_def status_of_def)

lemma render_missing:
  "map_of (templateCache c) page = None \<Longrightarrow>
     render status page data c =
       serverError (OtherError (''the template '' @ page @ '' does not exist'')) c"
  by (simp add: render_def)

lemma render_failed:
  "map_of (templateCache c) page = Some ts \<Longrightarrow> ts data = (buf, Some err) \<Longrightarrow>
     render status page data c = serverError err c"
  by (simp add: render_def)

lemma render_ok:
  "map_of (templateCache c) page = Some ts \<Longrightarrow> ts data = (buf, None) \<Longrightarrow>
     render status page data c = c\<lparr>rw := Write buf (WriteHeader status (rw c))\<rparr>"
  by (simp add: render_def)

lemma serverError_body: "body (rw (serverError e c)) = body (rw c) @ ''Internal Server Error'' @ [CHR 0x0A]"
  by (simp add: serverError_def http_Error_body status_defs StatusText_def)

lemma serverError_status: "wire (rw c) = None \<Longrightarrow> status_of (rw (serverError e c)) = Some 500"
  by (simp add: serverError_def http_Error_status_fresh status_defs)

lemma Write_WriteHeader_body: "body (Write buf (WriteHeader status w)) = body w @ buf"
  by (simp add: Write_def WriteHeader_def Let_def split: option.splits)

lemma Write_WriteHeader_wire:
  "wire w = None \<Longrightarrow> wire (Write buf (WriteHeader status w)) = Some (status, hdr w)"
  by (simp add: Write_def WriteHeader_def Let_def)

section \<open>What the helpers and handlers leave unchanged\<close>

lemma serverError_frame:
  "templateCache (serverError e c) = templateCache c"
  "snippets (serverError e c) = snippets c"
  "users (serverError e c) = users c"
  "trace (serverError e c) = trace c"
  "session (serverError e c) = session c"
  "panicked (serverError e c) = panicked c"
  "sessionManager (serverError e c) = sessionManager c"
  by (simp_all add: serverError_def)

lemma clientError_frame:
  "templateCache (clientError st c) = templateCache c"
  "snippets (clientError st c) = snippets c"
  "users (clientError st c) = users c"
  "trace (clientError st c) = trace c"
  "session (clientError st c) = session c"
  "panicked (clientError st c) = panicked c"
  "sessionManager (clientError st c) = sessionManager c"
  by (simp_all add: clientError_def)

lemma notFound_frame:
  "templateCache (notFound c) = templateCache c"
  "snippets (notFound c) = snippets c"
  "users (notFound c) = users c"
  "trace (notFound c) = trace c"
  "session (notFound c) = session c"
  "panicked (notFound c) = panicked c"
  "sessionManager (notFound c) = sessionManager c"
  by (simp_all add: notFound_def clientError_frame)

lemma render_frame:
  "templateCache (render st p d c) = templateCache c"
  "snippets (render st p d c) = snippets c"
  "users (render st p d c) = users c"
  "trace (render st p d c) = trace c"
  "session (render st p d c) = session c"
  "panicked (render st p d c) = panicked c"
  "sessionManager (render st p d c) = sessionManager c"
  by (auto simp: render_def serverError_frame split: option.splits prod.splits)

lemma newTemplateData_snd:
  "snd (newTemplateData r c) = c\<lparr>session := AList.delete ''flash'' (session c)\<rparr>"
  by (simp add: newTemplateData_def PopString_def)

lemma Put_frame:
  "templateCache (Put k v c) = templateCache c"
  "snippets (Put k v c) = snippets c"
  "users (Put k v c) = users c"
  "trace (Put k v c) = trace c"
  "panicked (Put k v c) = panicked c"
  "sessionManager (Put k v c) = sessionManager c"
  "rw (Put k v c) = rw c"
  by (simp_all add: Put_def)

lemma log_call_frame:
  "templateCache (log_call e c) = templateCache c"
  "snippets (log_call e c) = snippets c"
  "users (log_call e c) = users c"
  "trace (log_call e c) = trace c @ [e]"
  "session (log_call e c) = session c"
  "panicked (log_call e c) = panicked c"
  "sessionManager (log_call e c) = sessionManager c"
  "rw (log_call e c) = rw c"
  by (simp_all add: log_call_def)

lemma notFound_status: "wire (rw c) = None \<Longrightarrow> status_of (rw (notFound c)) = Some 404"
  by (simp add: notFound_def clientError_def http_Error_status_fresh status_defs)

lemma Get_no_row:
  "exec_err d = None \<Longrightarrow> \<forall>s \<in> set (rows d). ID s = i \<longrightarrow> Expires s \<le> clock d \<Longrightarrow>
     SnippetModel_Get i d = Inl ErrNoRecord"
proof -
  assume e: "exec_err d = None" and a: "\<forall>s \<in> set (rows d). ID s = i \<longrightarrow> Expires s \<le> clock d"
  have "find (\<lambda>s. Expires s > clock d \<and> ID s = i) (rows d) = None"
    unfolding find_None_iff using a by fastforce
  then show ?thesis by (simp add: SnippetModel_Get_def e)
qed

lemma Get_row:
  "SnippetModel_Get i d = Inr s \<Longrightarrow> s \<in> set (rows d) \<and> ID s = i \<and> clock d < Expires s"
proof -
  assume g: "SnippetModel_Get i d = Inr s"
  then have "find (\<lambda>s. Expires s > clock d \<and> ID s = i) (rows d) = Some s"
    by (simp add: SnippetModel_Get_def split: option.splits)
  then obtain k where "k < length (rows d)" "Expires (rows d ! k) > clock d \<and> ID (rows d ! k) = i" "s = rows d ! k"
    unfolding find_Some_iff by blast
  then show ?thesis by simp
qed

lemma snippetView_unparsed:
  "Atoi (ByName (Params r) ''id'') = None \<Longrightarrow> snippetView r c = notFound c"
  by (simp add: snippetView_def)

lemma snippetView_low:
  "Atoi (ByName (Params r) ''id'') = Some i \<Longrightarrow> i < 1 \<Longrightarrow> snippetView r c = notFound c"
  by (simp add: snippetView_def)

lemma snippetView_trace:
  "Atoi (ByName (Params r) ''id'') = Some i \<Longrightarrow> \<not> i < 1 \<Longrightarrow>
     trace (snippetView r c) = trace c @ [StoreGet i]"
  by (simp add: snippetView_def Let_def split_def notFound_frame serverError_frame render_frame
      log_call_frame newTemplateData_snd split: sum.splits)

lemma decoded_form_clean:
  "decodePostForm dec r zero_snippetCreateForm = Done form0 \<Longrightarrow> FieldErrors form0 = []"
  "Decode dec form0 vs = Inr f \<Longrightarrow> FieldErrors f = FieldErrors form0"
  by (auto simp: decodePostForm_def Decode_def zero_snippetCreateForm_def
      split: option.splits sum.splits decode_error.splits)

lemma checks_on_clean_form:
  "FieldErrors f = [] \<Longrightarrow>
     FieldErrors (snippetCreate_checks f) =
       (let t = (if NotBlank (form_Title f) then [] else [''This field cannot be blank''])
                @ (if MaxChars (form_Title f) 100 then []
                   else [''This field cannot be more than 100 characters long''])
        in if t = [] then [] else [(''title'', t)])
       @ (if NotBlank (form_Content f) then [] else [(''content'', [''This field cannot be blank''])])
       @ (if PermittedInt (form_Expires f) [1, 7, 365] then []
          else [(''expires'', [''This field must equal 1, 7 or 365''])])
     \<and> (Valid (snippetCreate_checks f) \<longleftrightarrow>
          NotBlank (form_Title f) \<and> MaxChars (form_Title f) 100 \<and> NotBlank (form_Content f)
          \<and> form_Expires f \<in> {1, 7, 365})
     \<and> form_Title (snippetCreate_checks f) = form_Title f
     \<and> form_Content (snippetCreate_checks f) = form_Content f
     \<and> form_Expires (snippetCreate_checks f) = form_Expires f"
  by (simp add: snippetCreate_checks_def CheckField_def AddFieldError_def Valid_def Let_def
      PermittedInt_def)

lemma checks_keep_fields:
  "form_Title (snippetCreate_checks f) = form_Title f"
  "form_Content (snippetCreate_checks f) = form_Content f"
  "form_Expires (snippetCreate_checks f) = form_Expires f"
  by (simp_all add: snippetCreate_checks_def CheckField_def AddFieldError_def Let_def)

lemma snippetCreatePost_decoded:
  assumes "decodePostForm (Decode_snippetCreateForm (formDecoder c)) r zero_snippetCreateForm = Done form0"
    and "Decode (Decode_snippetCreateForm (formDecoder c)) form0 (PostForm r) = Inr form1"
  shows "snippetCreatePost r c =
     (let form = snippetCreate_checks form1
      in if \<not> Valid form then
           render StatusUnprocessableEntity ''create.tmpl''
             ((fst (newTemplateData r c))\<lparr>td_Form := SnippetForm form\<rparr>) (snd (newTemplateData r c))
         else
           (let c1 = log_call (StoreInsert (form_Title form) (form_Content form) (form_Expires form)) c
            in case SnippetModel_Insert (form_Title form) (form_Content form)
                      (form_Expires form) (snippets c1) of
                 (Inl err, d) \<Rightarrow> serverError err (c1\<lparr>snippets := d\<rparr>)
               | (Inr i, d) \<Rightarrow>
                   (let c2 = Put ''flash'' (SString ''Snippet successfully created!'')
                               (c1\<lparr>snippets := d\<rparr>)
                    in c2\<lparr>rw := Redirect r (''/snippet/view/'' @ Sprintf_d i)
                                    StatusSeeOther (rw c2)\<rparr>)))"
  by (simp add: snippetCreatePost_def assms split_def Let_def)

lemma map_of_update: "map_of (AList.update k v al) k = Some v"
  by (simp add: update_conv')

lemma Redirect_wire:
  "wire w = None \<Longrightarrow>
     \<exists>h. wire (Redirect r url code w) = Some (code, h) \<and> map_of h ''Location'' = Some url"
  by (simp add: Redirect_def Let_def header_Set_def WriteHeader_def Fprintln_def Write_def
      update_conv')

lemma Atoi_7: "Atoi ''7'' = Some 7"
  by (simp add: Atoi_def digit_val_def Let_def)

lemma demo_decode_invalid:
  "demo_decode_snippet zero_snippetCreateForm (PostForm demo_post_invalid) = Inr demo_form_invalid"
  "demo_decode_snippet demo_form_invalid (PostForm demo_post_invalid) = Inr demo_form_invalid"
  by (simp_all add: demo_decode_snippet_def demo_post_invalid_def demo_request_def first_value_def
      Atoi_7 zero_snippetCreateForm_def demo_form_invalid_def Let_def)

lemma demo_decode_valid:
  "demo_decode_snippet zero_snippetCreateForm (PostForm demo_post_valid) = Inr demo_form_valid"
  "demo_decode_snippet demo_form_valid (PostForm demo_post_valid) = Inr demo_form_valid"
  by (simp_all add: demo_decode_snippet_def demo_post_valid_def demo_request_def first_value_def
      Atoi_7 zero_snippetCreateForm_def demo_form_valid_def Let_def)

lemma demo_conn_fields:
  "Decode_snippetCreateForm (formDecoder demo_conn) = demo_decode_snippet"
  "Decode_userSignupForm (formDecoder demo_conn) = demo_decode_signup"
  "snippets demo_conn = demo_db"
  "users demo_conn = demo_users"
  "rw demo_conn = new_writer"
  "session demo_conn = []"
  "trace demo_conn = []"
  "templateCache demo_conn = demo_templates"
  by (simp_all add: demo_conn_def)

lemma demo_parse_ok:
  "ParseForm_err demo_post_invalid = None"
  "ParseForm_err demo_post_valid = None"
  by (simp_all add: demo_post_invalid_def demo_post_valid_def demo_request_def)

lemma demo_invalid_steps:
  "decodePostForm (Decode_snippetCreateForm (formDecoder demo_conn)) demo_post_invalid
     zero_snippetCreateForm = Done demo_form_invalid"
  "Decode (Decode_snippetCreateForm (formDecoder demo_conn)) demo_form_invalid
     (PostForm demo_post_invalid) = Inr demo_form_invalid"
  by (simp_all add: decodePostForm_def Decode_def demo_conn_fields demo_decode_invalid demo_parse_ok)
     (simp_all add: demo_form_invalid_def zero_snippetCreateForm_def)

lemma demo_valid_steps:
  "decodePostForm (Decode_snippetCreateForm (formDecoder demo_conn)) demo_post_valid
     zero_snippetCreateForm = Done demo_form_valid"
  "Decode (Decode_snippetCreateForm (formDecoder demo_conn)) demo_form_valid
     (PostForm demo_post_valid) = Inr demo_form_valid"
  by (simp_all add: decodePostForm_def Decode_def demo_conn_fields demo_decode_valid demo_parse_ok)
     (simp_all add: demo_form_valid_def zero_snippetCreateForm_def)

lemma Atoi_2: "Atoi ''2'' = Some 2"
  by (simp add: Atoi_def digit_val_def Let_def)

lemma demo_bad3_steps:
  "decodePostForm (Decode_snippetCreateForm (formDecoder demo_conn)) demo_post_bad3
     zero_snippetCreateForm = Done demo_form_bad3"
  "Decode (Decode_snippetCreateForm (formDecoder demo_conn)) demo_form_bad3
     (PostForm demo_post_bad3) = Inr demo_form_bad3"
  by (simp_all add: decodePostForm_def Decode_def demo_conn_fields demo_decode_snippet_def
      demo_post_bad3_def demo_request_def first_value_def Atoi_2 zero_snippetCreateForm_def
      demo_form_bad3_def Let_def)

lemma Atoi_samples: "Atoi ''abc'' = None" "Atoi ''0'' = Some 0" "Atoi ''-3'' = Some (- 3)"
  by (simp_all add: Atoi_def digit_val_def Let_def)

lemma demo_invalid_not_valid: "\<not> Valid (snippetCreate_checks demo_form_invalid)"
  by (simp add: snippetCreate_checks_def CheckField_def AddFieldError_def Valid_def Let_def
      demo_form_invalid_def NotBlank_def)

lemma demo_valid_valid: "Valid (snippetCreate_checks demo_form_valid)"
  by (simp add: snippetCreate_checks_def CheckField_def AddFieldError_def Valid_def Let_def
      demo_form_valid_def NotBlank_def MaxChars_def PermittedInt_def is_space_def)

lemma demo_insert:
  "SnippetModel_Insert (form_Title demo_form_valid) (form_Content demo_form_valid)
     (form_Expires demo_form_valid) (snippets demo_conn)
   = (Inr 3, demo_db\<lparr>rows := rows demo_db @
        [\<lparr>ID = 3, Title = ''T'', Content = ''C'', Created = 2000, Expires = 2000 + 7 * day\<rparr>],
        next_id := 4\<rparr>)"
  by (simp add: SnippetModel_Insert_def demo_conn_fields demo_db_def demo_form_valid_def Let_def)

lemma render_commits: "wire (rw c) = None \<Longrightarrow> wire (rw (render st p d c)) \<noteq> None"
  by (auto simp: render_def serverError_def http_Error_def Fprintln_def Write_def WriteHeader_def
      header_Set_def header_Del_def Let_def split: option.splits prod.splits)

lemma Redirect_after_commit:
  "wire w \<noteq> None \<Longrightarrow>
     wire (Redirect r url code w) = wire w
     \<and> superfluous (Redirect r url code w) = superfluous w @ [code]
     \<and> map_of (hdr (Redirect r url code w)) ''Location'' = Some url"
  by (auto simp: Redirect_def Let_def header_Set_def WriteHeader_def Fprintln_def Write_def
      update_conv' split: option.splits)

lemma userSignupPost_duplicate:
  assumes "decodePostForm (Decode_userSignupForm (formDecoder c)) r zero_userSignupForm = Done form0"
    and "Valid (userSignup_checks (EmailRX c) form0)"
    and "UserModel_Insert (form_Name (userSignup_checks (EmailRX c) form0))
           (form_Email (userSignup_checks (EmailRX c) form0))
           (form_Password (userSignup_checks (EmailRX c) form0)) (users c) = (Some ErrDuplicateEmail, u)"
  shows "userSignupPost r c =
     (let form = userSignup_checks (EmailRX c) form0;
          c2 = (log_call (UsersInsert (form_Name form) (form_Email form)) c)\<lparr>users := u\<rparr>;
          c3 = render StatusUnprocessableEntity ''signup.tmpl''
                 ((fst (newTemplateData r c2))\<lparr>td_Form := SignupForm
                     (AddFieldError ''email'' ''Email address is already in use'' form)\<rparr>)
                 (snd (newTemplateData r c2));
          c4 = Put ''flash'' (SString ''Your signup was succesful. Please log in'') c3
      in c4\<lparr>rw := Redirect r ''/user/login'' StatusSeeOther (rw c4)\<rparr>)"
  using assms(2,3)
  by (simp add: userSignupPost_def assms(1) Let_def split_def log_call_frame)

lemma userSignupPost_duplicate_effects:
  assumes "decodePostForm (Decode_userSignupForm (formDecoder c)) r zero_userSignupForm = Done form0"
    and "Valid (userSignup_checks (EmailRX c) form0)"
    and "UserModel_Insert (form_Name (userSignup_checks (EmailRX c) form0))
           (form_Email (userSignup_checks (EmailRX c) form0))
           (form_Password (userSignup_checks (EmailRX c) form0)) (users c) = (Some ErrDuplicateEmail, u)"
    and "wire (rw c) = None"
  shows "map_of (session (userSignupPost r c)) ''flash''
           = Some (SString ''Your signup was succesful. Please log in'')"
    and "superfluous (rw (userSignupPost r c)) \<noteq> [] \<and> last (superfluous (rw (userSignupPost r c))) = 303"
    and "map_of (hdr (rw (userSignupPost r c))) ''Location'' = Some ''/user/login''"
proof -
  let ?form = "userSignup_checks (EmailRX c) form0"
  let ?c2 = "(log_call (UsersInsert (form_Name ?form) (form_Email ?form)) c)\<lparr>users := u\<rparr>"
  let ?c3 = "render StatusUnprocessableEntity ''signup.tmpl''
                 ((fst (newTemplateData r ?c2))\<lparr>td_Form := SignupForm
                     (AddFieldError ''email'' ''Email address is already in use'' ?form)\<rparr>)
                 (snd (newTemplateData r ?c2))"
  have eq: "userSignupPost r c =
      (Put ''flash'' (SString ''Your signup was succesful. Please log in'') ?c3)
        \<lparr>rw := Redirect r ''/user/login'' StatusSeeOther (rw ?c3)\<rparr>"
    by (simp add: userSignupPost_duplicate [OF assms(1,2,3)] Let_def Put_frame)
  have "wire (rw (snd (newTemplateData r ?c2))) = None"
    using assms(4) by (simp add: newTemplateData_snd log_call_def)
  then have w: "wire (rw ?c3) \<noteq> None"
    by (rule render_commits)
  show "map_of (session (userSignupPost r c)) ''flash''
           = Some (SString ''Your signup was succesful. Please log in'')"
    by (simp add: eq Put_def update_conv')
  show "superfluous (rw (userSignupPost r c)) \<noteq> [] \<and> last (superfluous (rw (userSignupPost r c))) = 303"
    using Redirect_after_commit [OF w, of r "''/user/login''" StatusSeeOther]
    by (simp add: eq StatusSeeOther_def)
  show "map_of (hdr (rw (userSignupPost r c))) ''Location'' = Some ''/user/login''"
    using Redirect_after_commit [OF w, of r "''/user/login''" StatusSeeOther]
    by (simp add: eq)
qed

lemma demo_dup_decode:
  "decodePostForm (Decode_userSignupForm (formDecoder demo_conn)) demo_signup_dup zero_userSignupForm
     = Done demo_form_dup"
  by (simp add: decodePostForm_def Decode_def demo_conn_fields demo_decode_signup_def
      demo_signup_dup_def demo_request_def first_value_def zero_userSignupForm_def
      demo_form_dup_def Let_def)

lemma demo_dup_checks:
  "userSignup_checks (EmailRX demo_conn) demo_form_dup = demo_form_dup"
  by (simp add: userSignup_checks_def CheckField_def Let_def demo_form_dup_def NotBlank_def
      Matches_def MinChars_def demo_conn_def is_space_def)

lemma demo_dup_insert:
  "UserModel_Insert (form_Name demo_form_dup) (form_Email demo_form_dup)
     (form_Password demo_form_dup) (users demo_conn) = (Some ErrDuplicateEmail, demo_users)"
  by (simp add: UserModel_Insert_def demo_conn_fields demo_users_def demo_form_dup_def)

lemma render_status_ok:
  "wire (rw c) = None \<Longrightarrow> map_of (templateCache c) page = Some ts \<Longrightarrow> snd (ts data) = None \<Longrightarrow>
     status_of (rw (render st page data c)) = Some st"
  by (cases "ts data") (simp add: render_def status_of_def Write_def WriteHeader_def Let_def)

lemma demo_signup_template:
  "\<exists>ts. map_of demo_templates ''signup.tmpl'' = Some ts \<and> (\<forall>d. snd (ts d) = None)"
  by (simp add: demo_templates_def)

lemma userSignupPost_duplicate_status:
  assumes "decodePostForm (Decode_userSignupForm (formDecoder c)) r zero_userSignupForm = Done form0"
    and "Valid (userSignup_checks (EmailRX c) form0)"
    and "UserModel_Insert (form_Name (userSignup_checks (EmailRX c) form0))
           (form_Email (userSignup_checks (EmailRX c) form0))
           (form_Password (userSignup_checks (EmailRX c) form0)) (users c) = (Some ErrDuplicateEmail, u)"
    and "wire (rw c) = None"
    and "map_of (templateCache c) ''signup.tmpl'' = Some ts" and "\<forall>d. snd (ts d) = None"
  shows "status_of (rw (userSignupPost r c)) = Some 422"
proof -
  let ?form = "userSignup_checks (EmailRX c) form0"
  let ?c2 = "(log_call (UsersInsert (form_Name ?form) (form_Email ?form)) c)\<lparr>users := u\<rparr>"
  let ?d = "(fst (newTemplateData r ?c2))\<lparr>td_Form := SignupForm
                     (AddFieldError ''email'' ''Email address is already in use'' ?form)\<rparr>"
  let ?c3 = "render StatusUnprocessableEntity ''signup.tmpl'' ?d (snd (newTemplateData r ?c2))"
  have eq: "userSignupPost r c =
      (Put ''flash'' (SString ''Your signup was succesful. Please log in'') ?c3)
        \<lparr>rw := Redirect r ''/user/login'' StatusSeeOther (rw ?c3)\<rparr>"
    by (simp add: userSignupPost_duplicate [OF assms(1,2,3)] Let_def Put_frame)
  have w0: "wire (rw (snd (newTemplateData r ?c2))) = None"
    using assms(4) by (simp add: newTemplateData_snd log_call_def)
  have t: "map_of (templateCache (snd (newTemplateData r ?c2))) ''signup.tmpl'' = Some ts"
    using assms(5) by (simp add: newTemplateData_snd log_call_def)
  have st: "status_of (rw ?c3) = Some StatusUnprocessableEntity"
    using render_status_ok [OF w0 t] assms(6) by blast
  then have w: "wire (rw ?c3) \<noteq> None"
    by (auto simp: status_of_def)
  have "status_of (rw (userSignupPost r c)) = status_of (rw ?c3)"
    using Redirect_after_commit [OF w, of r "''/user/login''" StatusSeeOther]
    by (simp add: eq status_of_def)
  with st show ?thesis
    by (simp add: StatusUnprocessableEntity_def)
qed

section \<open>The template cache through the chain\<close>

lemma newTemplateData_cache: "templateCache (snd (newTemplateData r c)) = templateCache c"
  by (simp add: newTemplateData_snd)

lemma home_cache: "templateCache (home r c) = templateCache c"
  by (simp add: home_def Let_def split_def serverError_frame render_frame log_call_frame
      newTemplateData_cache split: sum.splits)

lemma snippetView_cache: "templateCache (snippetView r c) = templateCache c"
  by (simp add: snippetView_def Let_def split_def serverError_frame render_frame log_call_frame
      notFound_frame newTemplateData_cache split: sum.splits option.splits)

lemma snippetCreate_cache: "templateCache (snippetCreate r c) = templateCache c"
  by (simp add: snippetCreate_def Let_def split_def render_frame newTemplateData_cache)

lemma userSignup_cache: "templateCache (userSignup r c) = templateCache c"
  by (simp add: userSignup_def Let_def split_def render_frame newTemplateData_cache)

lemma snippetCreatePost_cache: "templateCache (snippetCreatePost r c) = templateCache c"
  by (simp add: snippetCreatePost_def Let_def split_def serverError_frame render_frame
      log_call_frame clientError_frame Put_frame newTemplateData_cache
      split: sum.splits outcome.splits)

lemma userSignupPost_cache: "templateCache (userSignupPost r c) = templateCache c"
  by (simp add: userSignupPost_def Let_def split_def serverError_frame render_frame
      log_call_frame clientError_frame Put_frame newTemplateData_cache
      split: sum.splits outcome.splits option.splits)

lemma run_terminal_cache: "templateCache (run_terminal t r c) = templateCache c"
  by (cases t)
     (simp_all add: home_cache snippetView_cache snippetCreate_cache userSignup_cache
       snippetCreatePost_cache userSignupPost_cache userLogin_def userLoginPost_def
       userLogoutPost_def ping_def fileServer_def split: option.splits)

lemma terminal_sem_cache: "templateCache (terminal_sem t r c) = templateCache c"
  by (simp add: terminal_sem_def run_terminal_cache log_call_frame)

lemma mw_sem_cache:
  assumes "\<And>r c. templateCache (h r c) = templateCache c"
  shows "templateCache (mw_sem m h r c) = templateCache c"
proof (cases m)
  case RecoverPanic
  then show ?thesis
    by (simp add: recoverPanic_def Let_def assms serverError_frame split: option.splits)
next
  case LogRequest
  then show ?thesis by (simp add: logRequest_def assms)
next
  case SecureHeaders
  then show ?thesis by (simp add: secureHeaders_def assms)
next
  case SessionLoadAndSave
  then show ?thesis by (simp add: LoadAndSave_def Let_def assms log_call_def)
next
  case NoSurf
  then show ?thesis
    by (simp add: noSurf_def assms Put_frame clientError_frame split: option.splits)
next
  case Authenticate
  then show ?thesis
    by (simp add: authenticate_def Let_def assms log_call_frame split: option.splits sval.splits)
next
  case RequireAuthentication
  then show ?thesis
    by (simp add: requireAuthentication_def Let_def assms Put_frame)
qed

lemma serve_cache:
  assumes "\<And>a r c. templateCache (t a r c) = templateCache c"
  shows "templateCache (serve t h r c) = templateCache c"
proof (induction h arbitrary: r c)
  case (Final a)
  then show ?case by (simp add: assms)
next
  case (Wrap m h)
  show ?case
    unfolding serve.simps by (rule mw_sem_cache) (rule Wrap.IH)
qed

lemma router_cache: "templateCache (router_ServeHTTP rt r c) = templateCache c"
  by (simp add: router_ServeHTTP_def Let_def notFound_frame serve_cache terminal_sem_cache
      split: option.splits prod.splits)

lemma app_ServeHTTP_cache: "templateCache (app_ServeHTTP r c) = templateCache c"
  unfolding app_ServeHTTP_def by (rule serve_cache) (rule router_cache)

section \<open>The chains that routes() builds\<close>

lemma dynamic_unfold:
  "alice_ThenFunc dynamic f = Wrap SessionLoadAndSave (Wrap NoSurf (Wrap Authenticate (Final f)))"
  by (simp add: alice_ThenFunc_def alice_Then_def dynamic_def alice_New_def)

lemma protected_unfold:
  "alice_ThenFunc protected f =
     Wrap SessionLoadAndSave (Wrap NoSurf (Wrap Authenticate (Wrap RequireAuthentication (Final f))))"
  by (simp add: alice_ThenFunc_def alice_Then_def protected_def dynamic_def alice_New_def
      alice_Append_def)

lemma the_router_table:
  "map (\<lambda>rt. (route_method rt, route_pattern rt, layers (route_handler rt), core (route_handler rt)))
     the_router =
   [(''GET'', ''/static/*filepath'', [], H_static),
    (''GET'', ''/ping'', [], H_ping),
    (''GET'', ''/'', [SessionLoadAndSave, NoSurf, Authenticate], H_home),
    (''GET'', ''/snippet/view/:id'', [SessionLoadAndSave, NoSurf, Authenticate], H_snippetView),
    (''GET'', ''/user/signup'', [SessionLoadAndSave, NoSurf, Authenticate], H_userSignup),
    (''POST'', ''/user/signup'', [SessionLoadAndSave, NoSurf, Authenticate], H_userSignupPost),
    (''GET'', ''/user/login'', [SessionLoadAndSave, NoSurf, Authenticate], H_userLogin),
    (''POST'', ''/user/login'', [SessionLoadAndSave, NoSurf, Authenticate], H_userLoginPost),
    (''GET'', ''/snippet/create'',
       [SessionLoadAndSave, NoSurf, Authenticate, RequireAuthentication], H_snippetCreate),
    (''POST'', ''/snippet/create'',
       [SessionLoadAndSave, NoSurf, Authenticate, RequireAuthentication], H_snippetCreatePost),
    (''POST'', ''/user/logout'',
       [SessionLoadAndSave, NoSurf, Authenticate, RequireAuthentication], H_userLogoutPost)]"
  by (simp add: the_router_def router_Handler_def router_HandlerFunc_def Let_def MethodGet_def
      MethodPost_def dynamic_unfold protected_unfold)

lemma routes_unfold:
  "routes = Wrap RecoverPanic (Wrap LogRequest (Wrap SecureHeaders (Final the_router)))"
  by (simp add: routes_def alice_Then_def standard_def alice_New_def)

lemma lookup_post_routes:
  "lookup_route the_router ''POST'' ''/user/signup'' = Some (alice_ThenFunc dynamic H_userSignupPost, [])"
  "lookup_route the_router ''POST'' ''/user/login'' = Some (alice_ThenFunc dynamic H_userLoginPost, [])"
  "lookup_route the_router ''POST'' ''/snippet/create'' = Some (alice_ThenFunc protected H_snippetCreatePost, [])"
  "lookup_route the_router ''POST'' ''/user/logout'' = Some (alice_ThenFunc protected H_userLogoutPost, [])"
  by (simp_all add: the_router_def router_Handler_def router_HandlerFunc_def Let_def MethodGet_def
      MethodPost_def match_pattern_def)

lemma noSurf_reject:
  "\<not> safe_method (Method r) \<Longrightarrow> \<not> csrf_matches r (session c) \<Longrightarrow>
     noSurf next r c = clientError StatusBadRequest c"
  by (simp add: noSurf_def csrf_matches_def split: option.splits)

lemma clientError_rw:
  "wire (rw c) = None \<Longrightarrow> status_of (rw (clientError st c)) = Some st"
  "body (rw (clientError st c)) = body (rw c) @ StatusText st @ [CHR 0x0A]"
  by (simp_all add: clientError_def http_Error_status_fresh http_Error_body)

lemma set_cookie_status: "status_of (set_cookie t w) = status_of w"
  by (cases "wire w") (auto simp: set_cookie_def status_of_def)

lemma set_cookie_body: "body (set_cookie t w) = body w"
  by (simp add: set_cookie_def)

lemma LoadAndSave_reject:
  assumes "\<not> safe_method (Method r)" and "\<not> csrf_matches r (session_Load r c)"
  shows "trace (LoadAndSave (noSurf next) r c)
           = trace c @ [SessionLoad (session_token r c), SessionCommit (session_token r c)]"
    and "snippets (LoadAndSave (noSurf next) r c) = snippets c"
    and "users (LoadAndSave (noSurf next) r c) = users c"
    and "panicked (LoadAndSave (noSurf next) r c) = panicked c"
    and "wire (rw c) = None \<Longrightarrow> status_of (rw (LoadAndSave (noSurf next) r c)) = Some 400"
    and "body (rw (LoadAndSave (noSurf next) r c)) = body (rw c) @ ''Bad Request'' @ [CHR 0x0A]"
proof -
  let ?c1 = "log_call (SessionLoad (session_token r c)) (c\<lparr>session := session_Load r c\<rparr>)"
  have s: "session ?c1 = session_Load r c" by (simp add: log_call_def)
  have rej: "noSurf next r ?c1 = clientError StatusBadRequest ?c1"
    using assms by (simp add: noSurf_reject s)
  have eq: "LoadAndSave (noSurf next) r c =
      (let token = session_token r c;
           c2 = clientError StatusBadRequest ?c1;
           c3 = log_call (SessionCommit token)
                 (c2\<lparr>sessionManager := AList.update token (session c2) (sessionManager c2)\<rparr>)
       in if token \<noteq> Cookie r then c3\<lparr>rw := set_cookie token (rw c3)\<rparr> else c3)"
    by (simp only: LoadAndSave_def Let_def rej)
  show "trace (LoadAndSave (noSurf next) r c)
           = trace c @ [SessionLoad (session_token r c), SessionCommit (session_token r c)]"
    by (simp add: eq Let_def log_call_def clientError_frame)
  show "snippets (LoadAndSave (noSurf next) r c) = snippets c"
    by (simp add: eq Let_def log_call_def clientError_frame)
  show "users (LoadAndSave (noSurf next) r c) = users c"
    by (simp add: eq Let_def log_call_def clientError_frame)
  show "panicked (LoadAndSave (noSurf next) r c) = panicked c"
    by (simp add: eq Let_def log_call_def clientError_frame)
  show "body (rw (LoadAndSave (noSurf next) r c)) = body (rw c) @ ''Bad Request'' @ [CHR 0x0A]"
    by (simp add: eq Let_def log_call_frame clientError_rw set_cookie_body StatusText_def
        StatusBadRequest_def)
  show "status_of (rw (LoadAndSave (noSurf next) r c)) = Some 400" if "wire (rw c) = None"
    using that
    by (simp add: eq Let_def log_call_frame set_cookie_status clientError_rw StatusBadRequest_def)
qed

lemma serve_guarded:
  assumes "layers h = SessionLoadAndSave # NoSurf # rest"
  shows "\<exists>next. serve t h = LoadAndSave (noSurf next)"
proof (cases h)
  case (Final a)
  with assms show ?thesis by simp
next
  case outer: (Wrap m h')
  with assms have m: "m = SessionLoadAndSave" and l: "layers h' = NoSurf # rest" by simp_all
  show ?thesis
  proof (cases h')
    case (Final a)
    with l show ?thesis by simp
  next
    case (Wrap m' h'')
    with l have "m' = NoSurf" by simp
    with outer m Wrap have "serve t h = LoadAndSave (noSurf (serve t h''))" by simp
    then show ?thesis by blast
  qed
qed

lemma fold_header_Set_wire: "wire (fold (\<lambda>(k, v). header_Set k v) hs w) = wire w"
  by (induction hs arbitrary: w) (auto simp: header_Set_def)

lemma fold_header_Set_body: "body (fold (\<lambda>(k, v). header_Set k v) hs w) = body w"
  by (induction hs arbitrary: w) (auto simp: header_Set_def)

lemma app_ServeHTTP_unfold:
  "app_ServeHTTP r c =
     recoverPanic (logRequest (secureHeaders (router_ServeHTTP the_router))) r c"
  by (simp add: app_ServeHTTP_def routes_unfold)

lemma recoverPanic_quiet:
  "panicked (h r c) = None \<Longrightarrow> recoverPanic h r c = h r c"
  by (simp add: recoverPanic_def Let_def)

lemma post_routes_guarded:
  assumes "rt \<in> set the_router" and "route_method rt = ''POST''"
  shows "\<exists>rest. layers (route_handler rt) = SessionLoadAndSave # NoSurf # Authenticate # rest"
proof -
  have "(route_method rt, route_pattern rt, layers (route_handler rt), core (route_handler rt))
          \<in> set (map (\<lambda>rt. (route_method rt, route_pattern rt, layers (route_handler rt),
                               core (route_handler rt))) the_router)"
    using assms(1) by (simp add: image_iff) blast
  then show ?thesis
    unfolding the_router_table using assms(2) by auto
qed

lemma lookup_route_member:
  "lookup_route rt m p = Some (h, ps) \<Longrightarrow>
     \<exists>x \<in> set rt. route_method x = m \<and> route_handler x = h"
  by (induction rt) (auto split: if_splits option.splits)

lemma csrf_matches_Params [simp]: "csrf_matches (r\<lparr>Params := ps\<rparr>) d = csrf_matches r d"
  by (simp add: csrf_matches_def submitted_token_def split: option.splits)

lemma session_Load_frame [simp]:
  "session_Load (r\<lparr>Params := ps\<rparr>) c = session_Load r c"
  "session_Load r (c\<lparr>infoLog := il, rw := w\<rparr>) = session_Load r c"
  by (simp_all add: session_Load_def)

lemma session_token_frame [simp]:
  "session_token (r\<lparr>Params := ps\<rparr>) c = session_token r c"
  "session_token r (c\<lparr>infoLog := il, rw := w\<rparr>) = session_token r c"
  by (simp_all add: session_token_def)

lemma outer_chain_dispatch:
  assumes "lookup_route the_router (Method r) (URL_Path r) = Some (h, ps)"
  shows "logRequest (secureHeaders (router_ServeHTTP the_router)) r c
           = serve terminal_sem h (r\<lparr>Params := ps\<rparr>)
               (c\<lparr>infoLog := infoLog c @ [request_line r],
                  rw := fold (\<lambda>(k, v). header_Set k v) (securityHeaders c) (rw c)\<rparr>)"
  by (simp add: logRequest_def secureHeaders_def router_ServeHTTP_def assms)

lemma demo_post_valid_fields:
  "Method demo_post_valid = ''POST''"
  "URL_Path demo_post_valid = ''/snippet/create''"
  "Cookie demo_post_valid = ''tok1''"
  "PostForm demo_post_valid = [(''title'', [''T'']), (''content'', [''C'']), (''expires'', [''7''])]"
  by (simp_all add: demo_post_valid_def demo_request_def)

lemma demo_post_valid_no_token:
  "\<not> csrf_matches demo_post_valid (session_Load demo_post_valid demo_conn)"
  by (simp add: csrf_matches_def submitted_token_def session_Load_def session_secret_def
      demo_post_valid_fields demo_conn_def)

section \<open>Session events through the chain\<close>

lemma session_events_frame:
  "session_events (serverError e c) = session_events c"
  "session_events (clientError st c) = session_events c"
  "session_events (notFound c) = session_events c"
  "session_events (render st p d c) = session_events c"
  "session_events (Put k v c) = session_events c"
  "session_events (snd (newTemplateData r c)) = session_events c"
  "session_events (log_call ev c) = session_events c @ filter is_session_event [ev]"
  by (simp_all add: session_events_def serverError_frame clientError_frame notFound_frame
      render_frame Put_frame newTemplateData_snd log_call_frame)

lemma session_events_update [simp]:
  "session_events (c\<lparr>rw := w\<rparr>) = session_events c"
  "session_events (c\<lparr>snippets := d\<rparr>) = session_events c"
  "session_events (c\<lparr>users := u\<rparr>) = session_events c"
  "session_events (c\<lparr>session := sd\<rparr>) = session_events c"
  "session_events (c\<lparr>panicked := p\<rparr>) = session_events c"
  "session_events (c\<lparr>infoLog := il\<rparr>) = session_events c"
  "session_events (c\<lparr>errorLog := el\<rparr>) = session_events c"
  "session_events (c\<lparr>sessionManager := sm\<rparr>) = session_events c"
  by (simp_all add: session_events_def)

lemma home_sess: "session_events (home r c) = session_events c"
  by (simp add: home_def Let_def split_def session_events_frame split: sum.splits)

lemma snippetView_sess: "session_events (snippetView r c) = session_events c"
  by (simp add: snippetView_def Let_def split_def session_events_frame
      split: sum.splits option.splits)

lemma snippetCreate_sess: "session_events (snippetCreate r c) = session_events c"
  by (simp add: snippetCreate_def Let_def split_def session_events_frame)

lemma userSignup_sess: "session_events (userSignup r c) = session_events c"
  by (simp add: userSignup_def Let_def split_def session_events_frame)

lemma snippetCreatePost_sess: "session_events (snippetCreatePost r c) = session_events c"
  by (simp add: snippetCreatePost_def Let_def split_def session_events_frame
      split: sum.splits outcome.splits)

lemma userSignupPost_sess: "session_events (userSignupPost r c) = session_events c"
  by (simp add: userSignupPost_def Let_def split_def session_events_frame
      split: sum.splits outcome.splits option.splits)

lemma run_terminal_sess: "session_events (run_terminal t r c) = session_events c"
  by (cases t)
     (simp_all add: home_sess snippetView_sess snippetCreate_sess userSignup_sess
       snippetCreatePost_sess userSignupPost_sess userLogin_def userLoginPost_def
       userLogoutPost_def ping_def fileServer_def split: option.splits)

lemma terminal_sem_sess: "session_events (terminal_sem t r c) = session_events c"
  by (simp add: terminal_sem_def run_terminal_sess session_events_frame)

lemma inner_mw_sess:
  assumes "\<And>r c. session_events (h r c) = session_events c"
    and "m \<in> {NoSurf, Authenticate, RequireAuthentication}"
  shows "session_events (mw_sem m h r c) = session_events c"
proof -
  consider "m = NoSurf" | "m = Authenticate" | "m = RequireAuthentication"
    using assms(2) by auto
  then show ?thesis
  proof cases
    case 1
    then show ?thesis
      by (simp add: noSurf_def assms(1) session_events_frame split: option.splits)
  next
    case 2
    then show ?thesis
      by (simp add: authenticate_def Let_def assms(1) session_events_frame
          split: option.splits sval.splits)
  next
    case 3
    then show ?thesis
      by (simp add: requireAuthentication_def Let_def assms(1) session_events_frame)
  qed
qed

lemma inner_serve_sess:
  "set (layers h) \<subseteq> {NoSurf, Authenticate, RequireAuthentication} \<Longrightarrow>
     session_events (serve terminal_sem h r c) = session_events c"
proof (induction h arbitrary: r c)
  case (Final a)
  then show ?case by (simp add: terminal_sem_sess)
next
  case (Wrap m h)
  then have m: "m \<in> {NoSurf, Authenticate, RequireAuthentication}"
    and ih: "\<And>r c. session_events (serve terminal_sem h r c) = session_events c"
    by simp_all
  show ?case
    unfolding serve.simps by (rule inner_mw_sess [OF ih m])
qed

lemma LoadAndSave_sess:
  assumes "\<And>r c. session_events (h r c) = session_events c"
  shows "session_events (LoadAndSave h r c)
           = session_events c @ [SessionLoad (session_token r c), SessionCommit (session_token r c)]"
  by (simp add: LoadAndSave_def Let_def assms session_events_frame)

lemma recoverPanic_clears: "panicked (recoverPanic h r c) = None"
  by (simp add: recoverPanic_def Let_def serverError_frame split: option.splits)

lemma recoverPanic_sess: "session_events (recoverPanic h r c) = session_events (h r c)"
  by (simp add: recoverPanic_def Let_def session_events_frame split: option.splits)

lemma alice_Then_serve: "serve t (alice_Then ch h) = foldr mw_sem ch (serve t h)"
  by (induction ch) (simp_all add: alice_Then_def)

lemma route_layers:
  assumes "rt \<in> set the_router"
  shows "layers (route_handler rt) = []
     \<or> layers (route_handler rt) = [SessionLoadAndSave, NoSurf, Authenticate]
     \<or> layers (route_handler rt) = [SessionLoadAndSave, NoSurf, Authenticate, RequireAuthentication]"
proof -
  have "(route_method rt, route_pattern rt, layers (route_handler rt), core (route_handler rt))
          \<in> set (map (\<lambda>rt. (route_method rt, route_pattern rt, layers (route_handler rt),
                               core (route_handler rt))) the_router)"
    using assms by (simp add: image_iff) blast
  then show ?thesis
    unfolding the_router_table by auto
qed

lemma session_route_sess:
  assumes "rt \<in> set the_router" and "layers (route_handler rt) \<noteq> []"
  shows "session_events (serve terminal_sem (route_handler rt) r c)
           = session_events c @ [SessionLoad (session_token r c), SessionCommit (session_token r c)]"
proof (cases "route_handler rt")
  case (Final a)
  with assms(2) show ?thesis by simp
next
  case (Wrap m h')
  with route_layers [OF assms(1)] assms(2)
  have m: "m = SessionLoadAndSave"
    and l: "set (layers h') \<subseteq> {NoSurf, Authenticate, RequireAuthentication}"
    by auto
  show ?thesis
    unfolding Wrap m serve.simps mw_sem.simps
    by (rule LoadAndSave_sess) (rule inner_serve_sess [OF l])
qed

lemma lookup_home:
  "lookup_route the_router ''GET'' ''/'' = Some (alice_ThenFunc dynamic H_home, [])"
  by (simp add: the_router_def router_Handler_def router_HandlerFunc_def Let_def MethodGet_def
      MethodPost_def match_pattern_def)

lemma snippetCreatePost_invalid_response:
  assumes "decodePostForm (Decode_snippetCreateForm (formDecoder c)) r zero_snippetCreateForm = Done form0"
    and "Decode (Decode_snippetCreateForm (formDecoder c)) form0 (PostForm r) = Inr form1"
    and "\<not> Valid (snippetCreate_checks form1)"
    and "map_of (templateCache c) ''create.tmpl'' = Some ts"
    and "ts ((fst (newTemplateData r c))\<lparr>td_Form := SnippetForm (snippetCreate_checks form1)\<rparr>)
           = (buf, None)"
    and "wire (rw c) = None"
  shows "wire (rw (snippetCreatePost r c)) = Some (422, hdr (rw c))"
    and "body (rw (snippetCreatePost r c)) = body (rw c) @ buf"
proof -
  let ?d = "(fst (newTemplateData r c))\<lparr>td_Form := SnippetForm (snippetCreate_checks form1)\<rparr>"
  let ?c1 = "snd (newTemplateData r c)"
  have eq: "snippetCreatePost r c = render StatusUnprocessableEntity ''create.tmpl'' ?d ?c1"
    using assms(3) by (simp add: snippetCreatePost_decoded [OF assms(1,2)] Let_def)
  have t: "map_of (templateCache ?c1) ''create.tmpl'' = Some ts"
    using assms(4) by (simp add: newTemplateData_snd)
  have w: "rw ?c1 = rw c"
    by (simp add: newTemplateData_snd)
  have r: "render StatusUnprocessableEntity ''create.tmpl'' ?d ?c1
             = ?c1\<lparr>rw := Write buf (WriteHeader StatusUnprocessableEntity (rw ?c1))\<rparr>"
    by (rule render_ok [OF t assms(5)])
  have e2: "snippetCreatePost r c
              = ?c1\<lparr>rw := Write buf (WriteHeader StatusUnprocessableEntity (rw c))\<rparr>"
    by (simp only: eq r w)
  show "wire (rw (snippetCreatePost r c)) = Some (422, hdr (rw c))"
    by (simp add: e2 StatusUnprocessableEntity_def Write_WriteHeader_wire [OF assms(6)])
  show "body (rw (snippetCreatePost r c)) = body (rw c) @ buf"
    by (simp add: e2 Write_WriteHeader_body)
qed

lemma Sprintf_d_samples: "Sprintf_d 2 = ''2''" "Sprintf_d 7 = ''7''"
  by code_simp+

lemma demo_create_template:
  "map_of (templateCache demo_conn) ''create.tmpl'' = Some (\<lambda>d. (''create:'' @ show_form (td_Form d), None))"
  by (simp add: demo_conn_fields demo_templates_def)

lemma demo_bad3_errors:
  "FieldErrors (snippetCreate_checks demo_form_bad3)
     = [(''title'', [''This field cannot be blank'']),
        (''content'', [''This field cannot be blank'']),
        (''expires'', [''This field must equal 1, 7 or 365''])]"
  by (simp add: snippetCreate_checks_def CheckField_def AddFieldError_def Let_def
      demo_form_bad3_def NotBlank_def MaxChars_def PermittedInt_def is_space_def)

lemma demo_bad3_page:
  "show_form (SnippetForm (snippetCreate_checks demo_form_bad3)) = ''| |2|title, content, expires''"
  by (simp add: show_form_def checks_keep_fields demo_bad3_errors Sprintf_d_samples)
     (simp add: demo_form_bad3_def Sprintf_d_samples)

lemma demo_invalid_errors:
  "FieldErrors (snippetCreate_checks demo_form_invalid) = [(''title'', [''This field cannot be blank''])]"
  by (simp add: snippetCreate_checks_def CheckField_def AddFieldError_def Let_def
      demo_form_invalid_def NotBlank_def MaxChars_def PermittedInt_def is_space_def)

lemma demo_invalid_page:
  "show_form (SnippetForm (snippetCreate_checks demo_form_invalid)) = ''|keep me|7|title''"
  by (simp add: show_form_def checks_keep_fields demo_invalid_errors Sprintf_d_samples)
     (simp add: demo_form_invalid_def Sprintf_d_samples)

section \<open>Properties of the request pipeline\<close>

subsection \<open>Rendering commits nothing before the template has run\<close>

text \<open>
  C1. Whenever the page is missing from the template cache, or its template returns an error
  after having written any bytes \<open>buf\<close> into the buffer, \<open>render\<close> appends exactly the generic
  text of the 500 response to the connection, so nothing of \<open>buf\<close> is sent, and on a writer
  that has committed nothing the status is 500. Only when the template has run without an error
  is the given status committed and the whole buffer written after it.
\<close>

theorem render_commits_after_execution:
  "((map_of (templateCache c) page = None \<or>
      (\<exists>ts buf err. map_of (templateCache c) page = Some ts \<and> ts data = (buf, Some err)))
     \<longrightarrow> body (rw (render status page data c)) = body (rw c) @ ''Internal Server Error'' @ [CHR 0x0A]
         \<and> (wire (rw c) = None \<longrightarrow> status_of (rw (render status page data c)) = Some 500))
   \<and> (\<forall>ts buf. map_of (templateCache c) page = Some ts \<and> ts data = (buf, None) \<longrightarrow>
         body (rw (render status page data c)) = body (rw c) @ buf
         \<and> (wire (rw c) = None \<longrightarrow>
              wire (rw (render status page data c)) = Some (status, hdr (rw c))))"
proof (intro conjI impI allI)
  assume "map_of (templateCache c) page = None \<or>
      (\<exists>ts buf err. map_of (templateCache c) page = Some ts \<and> ts data = (buf, Some err))"
  then obtain e where r: "render status page data c = serverError e c"
    using render_missing render_failed by blast
  show "body (rw (render status page data c)) = body (rw c) @ ''Internal Server Error'' @ [CHR 0x0A]"
    by (simp only: r serverError_body)
  show "wire (rw c) = None \<Longrightarrow> status_of (rw (render status page data c)) = Some 500"
    by (simp only: r serverError_status)
next
  fix ts buf
  assume "map_of (templateCache c) page = Some ts \<and> ts data = (buf, None)"
  then have r: "render status page data c = c\<lparr>rw := Write buf (WriteHeader status (rw c))\<rparr>"
    using render_ok by blast
  show "body (rw (render status page data c)) = body (rw c) @ buf"
    by (simp add: r Write_WriteHeader_body)
  show "wire (rw c) = None \<Longrightarrow> wire (rw (render status page data c)) = Some (status, hdr (rw c))"
    by (simp add: r Write_WriteHeader_wire)
qed

theorem render_commits_after_execution_witness:
  "body (rw (render 200 ''nope.tmpl'' demo_data demo_conn)) = ''Internal Server Error'' @ [CHR 0x0A]
   \<and> status_of (rw (render 200 ''nope.tmpl'' demo_data demo_conn)) = Some 500
   \<and> body (rw (render 200 ''view.tmpl'' demo_data demo_conn)) = ''Internal Server Error'' @ [CHR 0x0A]
   \<and> status_of (rw (render 200 ''view.tmpl'' demo_data demo_conn)) = Some 500
   \<and> body (rw (render 422 ''create.tmpl'' demo_data demo_conn)) = ''create:''
   \<and> wire (rw (render 422 ''create.tmpl'' demo_data demo_conn)) = Some (422, [])"
proof -
  have c: "templateCache demo_conn = demo_templates" "rw demo_conn = new_writer"
    by (simp_all add: demo_conn_def)
  have m: "map_of demo_templates ''nope.tmpl'' = None"
    by (simp add: demo_templates_def)
  have v: "\<exists>ts buf err. map_of demo_templates ''view.tmpl'' = Some ts \<and> ts demo_data = (buf, Some err)"
    by (simp add: demo_templates_def demo_data_def)
  have k: "\<exists>ts. map_of demo_templates ''create.tmpl'' = Some ts \<and> ts demo_data = (''create:'', None)"
    by (simp add: demo_templates_def demo_data_def show_form_def)
  show ?thesis
    using render_commits_after_execution [of demo_conn "''nope.tmpl''" demo_data 200]
      render_commits_after_execution [of demo_conn "''view.tmpl''" demo_data 200]
      render_commits_after_execution [of demo_conn "''create.tmpl''" demo_data 422]
      m v k
    by (auto simp: c new_writer_def)
qed

subsection \<open>The signup handler after a duplicate email\<close>

text \<open>
  C2. The handler evaluated on a signup whose fields pass validation and whose email is already
  in the user store: the 422 page with the email error is what goes out, but the handler does
  not stop there. It also puts the success flash message into the session and calls
  \<open>http.Redirect\<close> with 303, which sets \<open>Location\<close> on the header map and makes a superfluous
  \<open>WriteHeader\<close> call.
\<close>

theorem userSignupPost_duplicate_email_falls_through:
  "status_of (rw (userSignupPost demo_signup_dup demo_conn)) = Some 422
   \<and> map_of (session (userSignupPost demo_signup_dup demo_conn)) ''flash''
     = Some (SString ''Your signup was succesful. Please log in'')
   \<and> last (superfluous (rw (userSignupPost demo_signup_dup demo_conn))) = 303
   \<and> superfluous (rw (userSignupPost demo_signup_dup demo_conn)) \<noteq> []
   \<and> map_of (hdr (rw (userSignupPost demo_signup_dup demo_conn))) ''Location'' = Some ''/user/login''"
proof -
  have v: "Valid (userSignup_checks (EmailRX demo_conn) demo_form_dup)"
    by (simp add: demo_dup_checks) (simp add: Valid_def demo_form_dup_def)
  have i: "UserModel_Insert (form_Name (userSignup_checks (EmailRX demo_conn) demo_form_dup))
           (form_Email (userSignup_checks (EmailRX demo_conn) demo_form_dup))
           (form_Password (userSignup_checks (EmailRX demo_conn) demo_form_dup)) (users demo_conn)
        = (Some ErrDuplicateEmail, demo_users)"
    by (simp only: demo_dup_checks demo_dup_insert)
  have w: "wire (rw demo_conn) = None"
    by (simp add: demo_conn_def new_writer_def)
  obtain ts where ts: "map_of (templateCache demo_conn) ''signup.tmpl'' = Some ts"
      "\<forall>d. snd (ts d) = None"
    using demo_signup_template by (auto simp: demo_conn_fields)
  show ?thesis
    using userSignupPost_duplicate_effects [OF demo_dup_decode v i w]
      userSignupPost_duplicate_status [OF demo_dup_decode v i w ts]
    by simp
qed

subsection \<open>The CSRF guard in front of every POST route\<close>

text \<open>
  C3. A POST request that the router dispatches to a registered route, and whose submitted CSRF
  token does not match the secret bound to the session loaded for it (or that has no token, or
  whose session has no secret), is answered 400 by the composed handler of \<open>routes()\<close>: the
  request's log of calls holds the session load and the session commit and nothing else, so no
  terminal handler is invoked, and the snippet store and the user store are as they were.
  Every registered POST route has the session middleware outermost in its own chain, the CSRF
  guard next and \<open>authenticate\<close> inside the guard.
\<close>

theorem csrf_guard_rejects_post:
  assumes "Method r = ''POST''"
    and "lookup_route the_router (Method r) (URL_Path r) = Some (h, ps)"
    and "\<not> csrf_matches r (session_Load r c)"
    and "wire (rw c) = None" and "panicked c = None"
  shows "status_of (rw (app_ServeHTTP r c)) = Some 400
     \<and> trace (app_ServeHTTP r c)
         = trace c @ [SessionLoad (session_token r c), SessionCommit (session_token r c)]
     \<and> (\<forall>t. Invoked t \<in> set (trace (app_ServeHTTP r c)) \<longrightarrow> Invoked t \<in> set (trace c))
     \<and> snippets (app_ServeHTTP r c) = snippets c
     \<and> users (app_ServeHTTP r c) = users c
     \<and> (\<forall>rt \<in> set the_router. route_method rt = ''POST'' \<longrightarrow>
           (\<exists>rest. layers (route_handler rt) = SessionLoadAndSave # NoSurf # Authenticate # rest))"
proof -
  let ?r = "r\<lparr>Params := ps\<rparr>"
  let ?c = "c\<lparr>infoLog := infoLog c @ [request_line r],
              rw := fold (\<lambda>(k, v). header_Set k v) (securityHeaders c) (rw c)\<rparr>"
  obtain x where x: "x \<in> set the_router" "route_method x = ''POST''" "route_handler x = h"
    using lookup_route_member [OF assms(2)] assms(1) by auto
  obtain rest where "layers h = SessionLoadAndSave # NoSurf # Authenticate # rest"
    using post_routes_guarded [OF x(1,2)] x(3) by auto
  then obtain nxt where nxt: "serve terminal_sem h = LoadAndSave (noSurf nxt)"
    using serve_guarded by blast
  have inner: "logRequest (secureHeaders (router_ServeHTTP the_router)) r c
                 = LoadAndSave (noSurf nxt) ?r ?c"
    by (simp only: outer_chain_dispatch [OF assms(2)] nxt)
  have unsafe: "\<not> safe_method (Method ?r)"
    by (simp add: assms(1) safe_method_def)
  have mism: "\<not> csrf_matches ?r (session_Load ?r ?c)"
    using assms(3) by simp
  have tok: "session_token ?r ?c = session_token r c"
    by simp
  have w: "wire (rw ?c) = None"
    by (simp add: fold_header_Set_wire assms(4))
  note rej = LoadAndSave_reject [OF unsafe mism, of nxt]
  have "panicked (LoadAndSave (noSurf nxt) ?r ?c) = None"
    by (simp add: rej(4) assms(5))
  then have eq: "app_ServeHTTP r c = LoadAndSave (noSurf nxt) ?r ?c"
    by (simp add: app_ServeHTTP_unfold recoverPanic_quiet inner)
  have t: "trace (app_ServeHTTP r c)
         = trace c @ [SessionLoad (session_token r c), SessionCommit (session_token r c)]"
    by (simp add: eq rej(1) tok)
  have s: "status_of (rw (app_ServeHTTP r c)) = Some 400"
    by (simp add: eq rej(5) [OF w])
  have d: "snippets (app_ServeHTTP r c) = snippets c" "users (app_ServeHTTP r c) = users c"
    by (simp_all add: eq rej(2,3))
  have i: "\<forall>t. Invoked t \<in> set (trace (app_ServeHTTP r c)) \<longrightarrow> Invoked t \<in> set (trace c)"
    by (simp add: t)
  have g: "\<forall>rt \<in> set the_router. route_method rt = ''POST'' \<longrightarrow>
           (\<exists>rest. layers (route_handler rt) = SessionLoadAndSave # NoSurf # Authenticate # rest)"
    by (intro ballI impI) (rule post_routes_guarded)
  show ?thesis
    by (intro conjI) (rule s t i d g)+
qed

theorem csrf_guard_rejects_post_witness:
  "Method demo_post_valid = ''POST''
   \<and> lookup_route the_router (Method demo_post_valid) (URL_Path demo_post_valid)
       = Some (alice_ThenFunc protected H_snippetCreatePost, [])
   \<and> \<not> csrf_matches demo_post_valid (session_Load demo_post_valid demo_conn)
   \<and> status_of (rw (app_ServeHTTP demo_post_valid demo_conn)) = Some 400
   \<and> trace (app_ServeHTTP demo_post_valid demo_conn) = [SessionLoad ''tok1'', SessionCommit ''tok1'']
   \<and> snippets (app_ServeHTTP demo_post_valid demo_conn) = demo_db
   \<and> users (app_ServeHTTP demo_post_valid demo_conn) = demo_users"
proof -
  have l: "lookup_route the_router (Method demo_post_valid) (URL_Path demo_post_valid)
       = Some (alice_ThenFunc protected H_snippetCreatePost, [])"
    by (simp add: demo_post_valid_fields lookup_post_routes)
  have w: "wire (rw demo_conn) = None" "panicked demo_conn = None"
    by (simp_all add: demo_conn_def new_writer_def)
  have t: "session_token demo_post_valid demo_conn = ''tok1''"
    by (simp add: session_token_def demo_post_valid_fields demo_conn_def)
  have C: "status_of (rw (app_ServeHTTP demo_post_valid demo_conn)) = Some 400
   \<and> trace (app_ServeHTTP demo_post_valid demo_conn) = [SessionLoad ''tok1'', SessionCommit ''tok1'']
   \<and> snippets (app_ServeHTTP demo_post_valid demo_conn) = demo_db
   \<and> users (app_ServeHTTP demo_post_valid demo_conn) = demo_users"
    using csrf_guard_rejects_post [OF demo_post_valid_fields(1) l demo_post_valid_no_token w]
    by (simp add: t demo_conn_fields)
  from C l demo_post_valid_no_token demo_post_valid_fields(1) show ?thesis
    by blast
qed

subsection \<open>The nesting of the chains\<close>

text \<open>
  C4. The handler that \<open>routes()\<close> returns has \<open>recoverPanic\<close> outermost, then \<open>logRequest\<close>, then
  \<open>secureHeaders\<close>, around the router; each registered route carries the chain written next to
  it in the table: none for the static files and for ping, the session middleware, the CSRF
  guard and \<open>authenticate\<close> in that order for the dynamic routes, and \<open>requireAuthentication\<close>
  innermost in addition for the protected ones. A chain composed by \<open>Then\<close> runs its
  constructors first-registered-outermost. No panic leaves the composed handler, and a request
  that the router dispatches to a route with a chain logs exactly one session load followed by
  exactly one session commit, whatever the response is.
\<close>

theorem routes_nesting:
  "layers routes = [RecoverPanic, LogRequest, SecureHeaders]
   \<and> core routes = the_router
   \<and> map (\<lambda>rt. (route_method rt, route_pattern rt, layers (route_handler rt), core (route_handler rt)))
       the_router =
     [(''GET'', ''/static/*filepath'', [], H_static),
      (''GET'', ''/ping'', [], H_ping),
      (''GET'', ''/'', [SessionLoadAndSave, NoSurf, Authenticate], H_home),
      (''GET'', ''/snippet/view/:id'', [SessionLoadAndSave, NoSurf, Authenticate], H_snippetView),
      (''GET'', ''/user/signup'', [SessionLoadAndSave, NoSurf, Authenticate], H_userSignup),
      (''POST'', ''/user/signup'', [SessionLoadAndSave, NoSurf, Authenticate], H_userSignupPost),
      (''GET'', ''/user/login'', [SessionLoadAndSave, NoSurf, Authenticate], H_userLogin),
      (''POST'', ''/user/login'', [SessionLoadAndSave, NoSurf, Authenticate], H_userLoginPost),
      (''GET'', ''/snippet/create'',
         [SessionLoadAndSave, NoSurf, Authenticate, RequireAuthentication], H_snippetCreate),
      (''POST'', ''/snippet/create'',
         [SessionLoadAndSave, NoSurf, Authenticate, RequireAuthentication], H_snippetCreatePost),
      (''POST'', ''/user/logout'',
         [SessionLoadAndSave, NoSurf, Authenticate, RequireAuthentication], H_userLogoutPost)]
   \<and> serve t (alice_Then ch h0) = foldr mw_sem ch (serve t h0)
   \<and> panicked (app_ServeHTTP r c) = None
   \<and> (\<forall>h ps. lookup_route the_router (Method r) (URL_Path r) = Some (h, ps) \<and> layers h \<noteq> []
         \<longrightarrow> session_events (app_ServeHTTP r c)
               = session_events c @ [SessionLoad (session_token r c),
                                     SessionCommit (session_token r c)])"
proof -
  have a: "layers routes = [RecoverPanic, LogRequest, SecureHeaders]" "core routes = the_router"
    by (simp_all add: routes_unfold)
  have p: "panicked (app_ServeHTTP r c) = None"
    by (simp only: app_ServeHTTP_unfold recoverPanic_clears)
  have s: "session_events (app_ServeHTTP r c)
               = session_events c @ [SessionLoad (session_token r c),
                                     SessionCommit (session_token r c)]"
    if l: "lookup_route the_router (Method r) (URL_Path r) = Some (h, ps)" and n: "layers h \<noteq> []"
    for h ps
  proof -
    obtain x where x: "x \<in> set the_router" "route_handler x = h"
      using lookup_route_member [OF l] by auto
    have "session_events (app_ServeHTTP r c)
            = session_events (logRequest (secureHeaders (router_ServeHTTP the_router)) r c)"
      by (simp only: app_ServeHTTP_unfold recoverPanic_sess)
    also have "\<dots> = session_events (serve terminal_sem (route_handler x) (r\<lparr>Params := ps\<rparr>)
               (c\<lparr>infoLog := infoLog c @ [request_line r],
                  rw := fold (\<lambda>(k, v). header_Set k v) (securityHeaders c) (rw c)\<rparr>))"
      by (simp only: outer_chain_dispatch [OF l] x(2))
    also have "\<dots> = session_events c @ [SessionLoad (session_token r c),
                                     SessionCommit (session_token r c)]"
    proof -
      have "layers (route_handler x) \<noteq> []" using n x(2) by simp
      from session_route_sess [OF x(1) this] show ?thesis by simp
    qed
    finally show ?thesis .
  qed
  show ?thesis
    by (intro conjI allI impI) (rule a the_router_table alice_Then_serve p | erule conjE, erule (1) s)+
qed

theorem routes_nesting_witness:
  "lookup_route the_router (Method demo_request) (URL_Path demo_request)
     = Some (alice_ThenFunc dynamic H_home, [])
   \<and> layers (alice_ThenFunc dynamic H_home :: terminal hnd) \<noteq> []
   \<and> session_events (app_ServeHTTP demo_request demo_conn)
       = [SessionLoad ''tok1'', SessionCommit ''tok1'']
   \<and> lookup_route the_router (Method demo_post_valid) (URL_Path demo_post_valid)
     = Some (alice_ThenFunc protected H_snippetCreatePost, [])
   \<and> session_events (app_ServeHTTP demo_post_valid demo_conn)
       = [SessionLoad ''tok1'', SessionCommit ''tok1'']"
proof -
  have l1: "lookup_route the_router (Method demo_request) (URL_Path demo_request)
     = Some (alice_ThenFunc dynamic H_home, [])"
    by (simp add: demo_request_def lookup_home)
  have n1: "layers (alice_ThenFunc dynamic H_home :: terminal hnd) \<noteq> []"
    by (simp add: dynamic_unfold)
  have l2: "lookup_route the_router (Method demo_post_valid) (URL_Path demo_post_valid)
       = Some (alice_ThenFunc protected H_snippetCreatePost, [])"
    by (simp add: demo_post_valid_fields lookup_post_routes)
  have n2: "layers (alice_ThenFunc protected H_snippetCreatePost :: terminal hnd) \<noteq> []"
    by (simp add: protected_unfold)
  have t: "session_token demo_request demo_conn = ''tok1''"
    "session_token demo_post_valid demo_conn = ''tok1''"
    by (simp_all add: session_token_def demo_post_valid_fields demo_request_def demo_conn_def)
  have e: "session_events demo_conn = []"
    by (simp add: session_events_def demo_conn_fields)
  have A: "session_events (app_ServeHTTP demo_request demo_conn)
       = [SessionLoad ''tok1'', SessionCommit ''tok1'']"
    using routes_nesting [of run_terminal "[]" "Final H_ping" demo_request demo_conn] l1 n1
    by (simp add: t e)
  have B: "session_events (app_ServeHTTP demo_post_valid demo_conn)
       = [SessionLoad ''tok1'', SessionCommit ''tok1'']"
    using routes_nesting [of run_terminal "[]" "Final H_ping" demo_post_valid demo_conn] l2 n2
    by (simp add: t e)
  from l1 n1 A l2 B show ?thesis by blast
qed

subsection \<open>Validation accumulates its errors\<close>

text \<open>
  C5. On the form that \<open>snippetCreatePost\<close> has decoded, all four checks take effect
  independently of each other: the field errors afterwards hold, under its field key and in the
  order of the checks, the message of exactly every check that fails (two messages under the
  key title when the title is both blank and too long); the form is valid iff all four checks
  pass, that is iff the field errors are empty; the submitted values are left as they were.
  When at least one check fails, and the create page is in the template cache and runs without
  an error on a writer that has committed nothing, the response of \<open>snippetCreatePost\<close> has
  status 422 and its body is the output of the template on the data whose form carries all of
  these field errors.
\<close>

theorem snippetCreate_checks_accumulate:
  assumes "decodePostForm (Decode_snippetCreateForm (formDecoder c)) r zero_snippetCreateForm = Done form0"
    and "Decode (Decode_snippetCreateForm (formDecoder c)) form0 (PostForm r) = Inr f"
  shows "FieldErrors (snippetCreate_checks f) =
       (let t = (if NotBlank (form_Title f) then [] else [''This field cannot be blank''])
                @ (if MaxChars (form_Title f) 100 then []
                   else [''This field cannot be more than 100 characters long''])
        in if t = [] then [] else [(''title'', t)])
       @ (if NotBlank (form_Content f) then [] else [(''content'', [''This field cannot be blank''])])
       @ (if PermittedInt (form_Expires f) [1, 7, 365] then []
          else [(''expires'', [''This field must equal 1, 7 or 365''])])
     \<and> (Valid (snippetCreate_checks f) \<longleftrightarrow>
          NotBlank (form_Title f) \<and> MaxChars (form_Title f) 100 \<and> NotBlank (form_Content f)
          \<and> form_Expires f \<in> {1, 7, 365})
     \<and> form_Title (snippetCreate_checks f) = form_Title f
     \<and> form_Content (snippetCreate_checks f) = form_Content f
     \<and> form_Expires (snippetCreate_checks f) = form_Expires f
     \<and> (\<not> (NotBlank (form_Title f) \<and> MaxChars (form_Title f) 100 \<and> NotBlank (form_Content f)
              \<and> form_Expires f \<in> {1, 7, 365}) \<longrightarrow>
          (\<forall>ts buf.
             map_of (templateCache c) ''create.tmpl'' = Some ts
             \<and> ts ((fst (newTemplateData r c))
                      \<lparr>td_Form := SnippetForm (snippetCreate_checks f)\<rparr>) = (buf, None)
             \<and> wire (rw c) = None
             \<longrightarrow> status_of (rw (snippetCreatePost r c)) = Some 422
                 \<and> body (rw (snippetCreatePost r c)) = body (rw c) @ buf))"
proof -
  have clean: "FieldErrors f = []"
    using decoded_form_clean(1) [OF assms(1)] decoded_form_clean(2) [OF assms(2)] by simp
  note acc = checks_on_clean_form [OF clean]
  have resp: "status_of (rw (snippetCreatePost r c)) = Some 422
                 \<and> body (rw (snippetCreatePost r c)) = body (rw c) @ buf"
    if bad: "\<not> (NotBlank (form_Title f) \<and> MaxChars (form_Title f) 100 \<and> NotBlank (form_Content f)
              \<and> form_Expires f \<in> {1, 7, 365})"
      and t: "map_of (templateCache c) ''create.tmpl'' = Some ts"
        "ts ((fst (newTemplateData r c))\<lparr>td_Form := SnippetForm (snippetCreate_checks f)\<rparr>)
           = (buf, None)"
        "wire (rw c) = None"
    for ts buf
  proof -
    have inv: "\<not> Valid (snippetCreate_checks f)"
      using acc [THEN conjunct2, THEN conjunct1] bad by simp
    note x = snippetCreatePost_invalid_response [OF assms inv t]
    show ?thesis using x by (simp add: status_of_def)
  qed
  have "\<not> (NotBlank (form_Title f) \<and> MaxChars (form_Title f) 100 \<and> NotBlank (form_Content f)
              \<and> form_Expires f \<in> {1, 7, 365}) \<longrightarrow>
          (\<forall>ts buf.
             map_of (templateCache c) ''create.tmpl'' = Some ts
             \<and> ts ((fst (newTemplateData r c))
                      \<lparr>td_Form := SnippetForm (snippetCreate_checks f)\<rparr>) = (buf, None)
             \<and> wire (rw c) = None
             \<longrightarrow> status_of (rw (snippetCreatePost r c)) = Some 422
                 \<and> body (rw (snippetCreatePost r c)) = body (rw c) @ buf)"
    using resp by blast
  with acc show ?thesis by (intro conjI) blast+
qed

theorem snippetCreate_checks_accumulate_witness:
  "FieldErrors (snippetCreate_checks demo_form_bad3)
     = [(''title'', [''This field cannot be blank'']),
        (''content'', [''This field cannot be blank'']),
        (''expires'', [''This field must equal 1, 7 or 365''])]
   \<and> \<not> Valid (snippetCreate_checks demo_form_bad3)
   \<and> status_of (rw (snippetCreatePost demo_post_bad3 demo_conn)) = Some 422
   \<and> body (rw (snippetCreatePost demo_post_bad3 demo_conn)) = ''create:| |2|title, content, expires''"
proof -
  note T = snippetCreate_checks_accumulate [OF demo_bad3_steps]
  have bad: "\<not> (NotBlank (form_Title demo_form_bad3) \<and> MaxChars (form_Title demo_form_bad3) 100
                \<and> NotBlank (form_Content demo_form_bad3) \<and> form_Expires demo_form_bad3 \<in> {1, 7, 365})"
    by (simp add: demo_form_bad3_def NotBlank_def)
  have run: "(\<lambda>d. (''create:'' @ show_form (td_Form d), None :: error option))
               ((fst (newTemplateData demo_post_bad3 demo_conn))
                  \<lparr>td_Form := SnippetForm (snippetCreate_checks demo_form_bad3)\<rparr>)
             = (''create:| |2|title, content, expires'', None)"
    by (simp add: demo_bad3_page)
  have w: "wire (rw demo_conn) = None" "body (rw demo_conn) = []"
    by (simp_all add: demo_conn_def new_writer_def)
  have R: "status_of (rw (snippetCreatePost demo_post_bad3 demo_conn)) = Some 422
         \<and> body (rw (snippetCreatePost demo_post_bad3 demo_conn))
             = body (rw demo_conn) @ ''create:| |2|title, content, expires''"
    using T bad demo_create_template run w(1) by blast
  have V: "\<not> Valid (snippetCreate_checks demo_form_bad3)"
    using T [THEN conjunct2, THEN conjunct1] bad by simp
  from T have E: "FieldErrors (snippetCreate_checks demo_form_bad3)
     = [(''title'', [''This field cannot be blank'']),
        (''content'', [''This field cannot be blank'']),
        (''expires'', [''This field must equal 1, 7 or 365''])]"
    by (simp add: demo_bad3_errors)
  from E V R show ?thesis by (simp add: w(2))
qed

subsection \<open>An invalid form is rendered again as it was submitted\<close>

text \<open>
  C6. When the decoded snippet-create form fails validation, \<open>snippetCreatePost\<close> is the call
  that renders the create page at status 422 with the checked form in the template data; the
  title, content and expiry of that form are the decoded ones, its field errors are not empty,
  and neither is the store changed nor any store call made. When the create page is in the
  template cache and runs without an error on that data, on a writer that has committed
  nothing, the status that goes out is 422, with the headers set so far, and the body is the
  output of the template on that data.
\<close>

theorem snippetCreatePost_invalid_rerenders:
  assumes "decodePostForm (Decode_snippetCreateForm (formDecoder c)) r zero_snippetCreateForm = Done form0"
    and "Decode (Decode_snippetCreateForm (formDecoder c)) form0 (PostForm r) = Inr form1"
    and "\<not> Valid (snippetCreate_checks form1)"
  shows "snippetCreatePost r c =
           render StatusUnprocessableEntity ''create.tmpl''
             ((fst (newTemplateData r c))\<lparr>td_Form := SnippetForm (snippetCreate_checks form1)\<rparr>)
             (snd (newTemplateData r c))
         \<and> StatusUnprocessableEntity = 422
         \<and> form_Title (snippetCreate_checks form1) = form_Title form1
         \<and> form_Content (snippetCreate_checks form1) = form_Content form1
         \<and> form_Expires (snippetCreate_checks form1) = form_Expires form1
         \<and> FieldErrors (snippetCreate_checks form1) \<noteq> []
         \<and> snippets (snippetCreatePost r c) = snippets c
         \<and> trace (snippetCreatePost r c) = trace c
         \<and> (\<forall>ts buf.
               map_of (templateCache c) ''create.tmpl'' = Some ts
               \<and> ts ((fst (newTemplateData r c))
                        \<lparr>td_Form := SnippetForm (snippetCreate_checks form1)\<rparr>) = (buf, None)
               \<and> wire (rw c) = None
               \<longrightarrow> status_of (rw (snippetCreatePost r c)) = Some 422
                   \<and> wire (rw (snippetCreatePost r c)) = Some (422, hdr (rw c))
                   \<and> body (rw (snippetCreatePost r c)) = body (rw c) @ buf)"
proof -
  have eq: "snippetCreatePost r c =
           render StatusUnprocessableEntity ''create.tmpl''
             ((fst (newTemplateData r c))\<lparr>td_Form := SnippetForm (snippetCreate_checks form1)\<rparr>)
             (snd (newTemplateData r c))"
    using assms(3) by (simp add: snippetCreatePost_decoded [OF assms(1,2)] Let_def)
  have fr: "snippets (snippetCreatePost r c) = snippets c" "trace (snippetCreatePost r c) = trace c"
    by (simp_all only: eq render_frame newTemplateData_snd) simp_all
  have ne: "FieldErrors (snippetCreate_checks form1) \<noteq> []"
    using assms(3) by (simp add: Valid_def)
  have resp: "\<forall>ts buf.
               map_of (templateCache c) ''create.tmpl'' = Some ts
               \<and> ts ((fst (newTemplateData r c))
                        \<lparr>td_Form := SnippetForm (snippetCreate_checks form1)\<rparr>) = (buf, None)
               \<and> wire (rw c) = None
               \<longrightarrow> status_of (rw (snippetCreatePost r c)) = Some 422
                   \<and> wire (rw (snippetCreatePost r c)) = Some (422, hdr (rw c))
                   \<and> body (rw (snippetCreatePost r c)) = body (rw c) @ buf"
  proof (intro allI impI, elim conjE)
    fix ts buf
    assume a: "map_of (templateCache c) ''create.tmpl'' = Some ts"
      "ts ((fst (newTemplateData r c))\<lparr>td_Form := SnippetForm (snippetCreate_checks form1)\<rparr>)
         = (buf, None)"
      "wire (rw c) = None"
    note x = snippetCreatePost_invalid_response [OF assms a]
    show "status_of (rw (snippetCreatePost r c)) = Some 422
        \<and> wire (rw (snippetCreatePost r c)) = Some (422, hdr (rw c))
        \<and> body (rw (snippetCreatePost r c)) = body (rw c) @ buf"
      using x by (simp add: status_of_def)
  qed
  have k: "form_Title (snippetCreate_checks form1) = form_Title form1
         \<and> form_Content (snippetCreate_checks form1) = form_Content form1
         \<and> form_Expires (snippetCreate_checks form1) = form_Expires form1"
    by (simp add: checks_keep_fields)
  have s: "StatusUnprocessableEntity = 422" by (simp add: StatusUnprocessableEntity_def)
  from eq s k ne fr resp show ?thesis by blast
qed

theorem snippetCreatePost_invalid_rerenders_witness:
  "status_of (rw (snippetCreatePost demo_post_invalid demo_conn)) = Some 422
   \<and> body (rw (snippetCreatePost demo_post_invalid demo_conn)) = ''create:|keep me|7|title''
   \<and> form_Content (snippetCreate_checks demo_form_invalid) = ''keep me''
   \<and> snippets (snippetCreatePost demo_post_invalid demo_conn) = demo_db
   \<and> trace (snippetCreatePost demo_post_invalid demo_conn) = []"
proof -
  note T = snippetCreatePost_invalid_rerenders [OF demo_invalid_steps demo_invalid_not_valid]
  have run: "(\<lambda>d. (''create:'' @ show_form (td_Form d), None :: error option))
               ((fst (newTemplateData demo_post_invalid demo_conn))
                  \<lparr>td_Form := SnippetForm (snippetCreate_checks demo_form_invalid)\<rparr>)
             = (''create:|keep me|7|title'', None)"
    by (simp add: demo_invalid_page)
  have w: "wire (rw demo_conn) = None" "body (rw demo_conn) = []"
    by (simp_all add: demo_conn_def new_writer_def)
  have R: "status_of (rw (snippetCreatePost demo_post_invalid demo_conn)) = Some 422
         \<and> body (rw (snippetCreatePost demo_post_invalid demo_conn))
             = body (rw demo_conn) @ ''create:|keep me|7|title''"
    using T demo_create_template run w(1) by blast
  from T have "form_Content (snippetCreate_checks demo_form_invalid) = form_Content demo_form_invalid"
    by blast
  then have K: "form_Content (snippetCreate_checks demo_form_invalid) = ''keep me''"
    by (simp add: demo_form_invalid_def)
  from T have "snippets (snippetCreatePost demo_post_invalid demo_conn) = snippets demo_conn"
      "trace (snippetCreatePost demo_post_invalid demo_conn) = trace demo_conn"
    by blast+
  then have F: "snippets (snippetCreatePost demo_post_invalid demo_conn) = demo_db"
      "trace (snippetCreatePost demo_post_invalid demo_conn) = []"
    by (simp_all add: demo_conn_fields)
  from R K F show ?thesis by (simp add: w(2))
qed

subsection \<open>A valid snippet is stored and the client redirected\<close>

text \<open>
  C7. For a decoded snippet-create form that passes validation: if \<open>Insert\<close> returns an id, the
  flash message is put into the session, the store is the one Insert left, and on a writer that
  has committed nothing the response is a 303 whose \<open>Location\<close> is \<open>/snippet/view/\<close> followed by
  exactly that id; if \<open>Insert\<close> returns an error, the handler is the generic 500 answer, the
  session is untouched and no redirect is written.
\<close>

theorem snippetCreatePost_valid_redirects:
  assumes "decodePostForm (Decode_snippetCreateForm (formDecoder c)) r zero_snippetCreateForm = Done form0"
    and "Decode (Decode_snippetCreateForm (formDecoder c)) form0 (PostForm r) = Inr form1"
    and "Valid (snippetCreate_checks form1)"
  shows "(\<forall>i d. SnippetModel_Insert (form_Title form1) (form_Content form1) (form_Expires form1)
                  (snippets c) = (Inr i, d) \<longrightarrow>
            map_of (session (snippetCreatePost r c)) ''flash''
              = Some (SString ''Snippet successfully created!'')
            \<and> snippets (snippetCreatePost r c) = d
            \<and> (wire (rw c) = None \<longrightarrow>
                 (\<exists>h. wire (rw (snippetCreatePost r c)) = Some (303, h)
                      \<and> map_of h ''Location'' = Some (''/snippet/view/'' @ Sprintf_d i))))
       \<and> (\<forall>e d. SnippetModel_Insert (form_Title form1) (form_Content form1) (form_Expires form1)
                  (snippets c) = (Inl e, d) \<longrightarrow>
            snippetCreatePost r c =
              serverError e (log_call (StoreInsert (form_Title form1) (form_Content form1)
                                        (form_Expires form1)) c\<lparr>snippets := d\<rparr>)
            \<and> session (snippetCreatePost r c) = session c
            \<and> body (rw (snippetCreatePost r c)) = body (rw c) @ ''Internal Server Error'' @ [CHR 0x0A]
            \<and> (wire (rw c) = None \<longrightarrow> status_of (rw (snippetCreatePost r c)) = Some 500))"
proof (intro conjI allI impI)
  fix i d
  assume ins: "SnippetModel_Insert (form_Title form1) (form_Content form1) (form_Expires form1)
                  (snippets c) = (Inr i, d)"
  have eq: "snippetCreatePost r c =
      (let c2 = Put ''flash'' (SString ''Snippet successfully created!'')
                  ((log_call (StoreInsert (form_Title form1) (form_Content form1) (form_Expires form1)) c)\<lparr>snippets := d\<rparr>)
       in c2\<lparr>rw := Redirect r (''/snippet/view/'' @ Sprintf_d i) StatusSeeOther (rw c2)\<rparr>)"
    using assms(3) ins
    by (simp add: snippetCreatePost_decoded [OF assms(1,2)] Let_def checks_keep_fields log_call_frame)
  show "map_of (session (snippetCreatePost r c)) ''flash'' = Some (SString ''Snippet successfully created!'')"
    by (simp add: eq Let_def Put_def update_conv')
  show "snippets (snippetCreatePost r c) = d"
    by (simp add: eq Let_def Put_def)
  show "\<exists>h. wire (rw (snippetCreatePost r c)) = Some (303, h)
            \<and> map_of h ''Location'' = Some (''/snippet/view/'' @ Sprintf_d i)"
    if "wire (rw c) = None"
    using Redirect_wire [of "rw c" r "''/snippet/view/'' @ Sprintf_d i" 303] that
    by (simp add: eq Let_def Put_def log_call_def StatusSeeOther_def)
next
  fix e d
  assume ins: "SnippetModel_Insert (form_Title form1) (form_Content form1) (form_Expires form1)
                  (snippets c) = (Inl e, d)"
  show eq: "snippetCreatePost r c =
      serverError e (log_call (StoreInsert (form_Title form1) (form_Content form1) (form_Expires form1)) c\<lparr>snippets := d\<rparr>)"
    using assms(3) ins
    by (simp add: snippetCreatePost_decoded [OF assms(1,2)] Let_def checks_keep_fields log_call_frame)
  show "session (snippetCreatePost r c) = session c"
    by (simp add: eq serverError_frame log_call_frame)
  show "body (rw (snippetCreatePost r c)) = body (rw c) @ ''Internal Server Error'' @ [CHR 0x0A]"
    by (simp add: eq serverError_body log_call_frame)
  show "status_of (rw (snippetCreatePost r c)) = Some 500" if "wire (rw c) = None"
    using that by (simp add: eq serverError_status log_call_frame)
qed

theorem snippetCreatePost_valid_redirects_witness:
  "map_of (session (snippetCreatePost demo_post_valid demo_conn)) ''flash''
     = Some (SString ''Snippet successfully created!'')
   \<and> (\<exists>h. wire (rw (snippetCreatePost demo_post_valid demo_conn)) = Some (303, h)
          \<and> map_of h ''Location'' = Some ''/snippet/view/3'')
   \<and> next_id (snippets (snippetCreatePost demo_post_valid demo_conn)) = 4"
proof -
  have s3: "Sprintf_d 3 = ''3''"
    by (simp add: Sprintf_d_def nat_digits.simps digit_char_def)
  have w: "wire (rw demo_conn) = None"
    by (simp add: demo_conn_def new_writer_def)
  from snippetCreatePost_valid_redirects [OF demo_valid_steps demo_valid_valid] demo_insert w
  show ?thesis by (simp add: s3)
qed

subsection \<open>Expired snippets are not found\<close>

text \<open>
  C8. When the query executes, \<open>SnippetModel.Get\<close> answers \<open>ErrNoRecord\<close> for an id all of whose
  rows have an expiry at or before the database clock, although such a row is still in the
  table; and a snippet that Get returns is a row of the table with that id whose expiry lies
  strictly after the clock.
\<close>

theorem Get_hides_expired:
  "exec_err d = None \<Longrightarrow>
     ((\<forall>s \<in> set (rows d). ID s = i \<longrightarrow> Expires s \<le> clock d) \<longrightarrow>
        SnippetModel_Get i d = Inl ErrNoRecord)
     \<and> (\<forall>s. SnippetModel_Get i d = Inr s \<longrightarrow>
           s \<in> set (rows d) \<and> ID s = i \<and> clock d < Expires s)"
  using Get_no_row Get_row by blast

theorem Get_hides_expired_witness:
  "exec_err demo_db = None
   \<and> ID (rows demo_db ! 1) = 2 \<and> Expires (rows demo_db ! 1) \<le> clock demo_db
   \<and> SnippetModel_Get 2 demo_db = Inl ErrNoRecord
   \<and> SnippetModel_Get 1 demo_db = Inr (rows demo_db ! 0)"
proof -
  have e: "exec_err demo_db = None" by (simp add: demo_db_def)
  have a: "\<forall>s \<in> set (rows demo_db). ID s = 2 \<longrightarrow> Expires s \<le> clock demo_db"
    by (simp add: demo_db_def)
  have b: "ID (rows demo_db ! 1) = 2 \<and> Expires (rows demo_db ! 1) \<le> clock demo_db"
    by (simp add: demo_db_def)
  have g: "SnippetModel_Get 1 demo_db = Inr (rows demo_db ! 0)"
    by (simp add: demo_db_def SnippetModel_Get_def)
  from Get_hides_expired [OF e, of 2] a have "SnippetModel_Get 2 demo_db = Inl ErrNoRecord"
    by blast
  with e b g show ?thesis by blast
qed

subsection \<open>The template cache is never written\<close>

text \<open>
  C9. No request changes the template cache: the handler that \<open>routes()\<close> returns leaves it as
  it was for every request and every state, so a second request sees the cache the first one
  saw; \<open>render\<close> leaves it as it was as well, and answers a page that is missing from it with the
  generic 500, without adding an entry.
\<close>

theorem templateCache_never_changes:
  "templateCache (app_ServeHTTP r c) = templateCache c
   \<and> templateCache (app_ServeHTTP r2 ((app_ServeHTTP r c)\<lparr>rw := new_writer\<rparr>)) = templateCache c
   \<and> templateCache (render st page d c) = templateCache c
   \<and> (map_of (templateCache c) page = None \<longrightarrow>
        body (rw (render st page d c)) = body (rw c) @ ''Internal Server Error'' @ [CHR 0x0A]
        \<and> map_of (templateCache (render st page d c)) page = None
        \<and> (wire (rw c) = None \<longrightarrow> status_of (rw (render st page d c)) = Some 500))"
  by (simp add: app_ServeHTTP_cache render_frame render_missing serverError_body
      serverError_status serverError_frame)

theorem templateCache_never_changes_witness:
  "map_of (templateCache demo_conn) ''nope.tmpl'' = None
   \<and> templateCache (app_ServeHTTP demo_request demo_conn) = demo_templates
   \<and> map_of (templateCache (render 200 ''nope.tmpl'' demo_data demo_conn)) ''nope.tmpl'' = None
   \<and> status_of (rw (render 200 ''nope.tmpl'' demo_data demo_conn)) = Some 500"
proof -
  have m: "map_of (templateCache demo_conn) ''nope.tmpl'' = None"
    by (simp add: demo_conn_fields demo_templates_def)
  have w: "wire (rw demo_conn) = None"
    by (simp add: demo_conn_def new_writer_def)
  show ?thesis
    using templateCache_never_changes [of demo_request demo_conn demo_request 200 "''nope.tmpl''" demo_data]
      m w
    by (simp add: demo_conn_fields)
qed

subsection \<open>Snippet ids that are not positive integers\<close>

text \<open>
  C10. When the id parameter does not parse with \<open>Atoi\<close>, or parses to a number below 1,
  \<open>snippetView\<close> is the 404 answer: no store call is logged and the store is unchanged. Any
  \<open>Store.Get\<close> that \<open>snippetView\<close> makes is for the parsed id, which is at least 1.
\<close>

theorem snippetView_bad_id_not_found:
  "((Atoi (ByName (Params r) ''id'') = None
      \<or> (\<exists>i. Atoi (ByName (Params r) ''id'') = Some i \<and> i < 1))
     \<longrightarrow> snippetView r c = notFound c
         \<and> trace (snippetView r c) = trace c
         \<and> snippets (snippetView r c) = snippets c
         \<and> (wire (rw c) = None \<longrightarrow> status_of (rw (snippetView r c)) = Some 404))
   \<and> (\<forall>i. StoreGet i \<in> set (trace (snippetView r c)) \<and> StoreGet i \<notin> set (trace c)
          \<longrightarrow> 1 \<le> i \<and> Atoi (ByName (Params r) ''id'') = Some i)"
proof (intro conjI impI allI)
  assume "Atoi (ByName (Params r) ''id'') = None
      \<or> (\<exists>i. Atoi (ByName (Params r) ''id'') = Some i \<and> i < 1)"
  then have eq: "snippetView r c = notFound c"
    using snippetView_unparsed snippetView_low by blast
  show "snippetView r c = notFound c" by (rule eq)
  show "trace (snippetView r c) = trace c" by (simp add: eq notFound_frame)
  show "snippets (snippetView r c) = snippets c" by (simp add: eq notFound_frame)
  show "wire (rw c) = None \<Longrightarrow> status_of (rw (snippetView r c)) = Some 404"
    by (simp add: eq notFound_status)
next
  fix i
  assume a: "StoreGet i \<in> set (trace (snippetView r c)) \<and> StoreGet i \<notin> set (trace c)"
  show "1 \<le> i" "Atoi (ByName (Params r) ''id'') = Some i"
  proof -
    have "1 \<le> i \<and> Atoi (ByName (Params r) ''id'') = Some i"
    proof (cases "Atoi (ByName (Params r) ''id'')")
      case None
      then show ?thesis using a by (simp add: snippetView_unparsed notFound_frame)
    next
      case (Some j)
      show ?thesis
      proof (cases "j < 1")
        case True
        then show ?thesis using a Some by (simp add: snippetView_low notFound_frame)
      next
        case False
        then show ?thesis using a Some snippetView_trace [OF Some False, of c] by auto
      qed
    qed
    then show "1 \<le> i" "Atoi (ByName (Params r) ''id'') = Some i" by simp_all
  qed
qed

theorem snippetView_bad_id_not_found_witness:
  "Atoi (ByName (Params (demo_request\<lparr>Params := [(''id'', ''abc'')]\<rparr>)) ''id'') = None
   \<and> status_of (rw (snippetView (demo_request\<lparr>Params := [(''id'', ''abc'')]\<rparr>) demo_conn)) = Some 404
   \<and> trace (snippetView (demo_request\<lparr>Params := [(''id'', ''abc'')]\<rparr>) demo_conn) = []
   \<and> Atoi (ByName (Params (demo_request\<lparr>Params := [(''id'', ''0'')]\<rparr>)) ''id'') = Some 0
   \<and> status_of (rw (snippetView (demo_request\<lparr>Params := [(''id'', ''0'')]\<rparr>) demo_conn)) = Some 404
   \<and> trace (snippetView (demo_request\<lparr>Params := [(''id'', ''0'')]\<rparr>) demo_conn) = []"
proof -
  have a: "Atoi (ByName (Params (demo_request\<lparr>Params := [(''id'', ''abc'')]\<rparr>)) ''id'') = None"
    by (simp add: ByName_def Atoi_samples)
  have b: "Atoi (ByName (Params (demo_request\<lparr>Params := [(''id'', ''0'')]\<rparr>)) ''id'') = Some 0"
    by (simp add: ByName_def Atoi_samples)
  have w: "wire (rw demo_conn) = None" "trace demo_conn = []"
    by (simp_all add: demo_conn_def new_writer_def)
  have A: "status_of (rw (snippetView (demo_request\<lparr>Params := [(''id'', ''abc'')]\<rparr>) demo_conn)) = Some 404
      \<and> trace (snippetView (demo_request\<lparr>Params := [(''id'', ''abc'')]\<rparr>) demo_conn) = trace demo_conn"
    using snippetView_bad_id_not_found [of "demo_request\<lparr>Params := [(''id'', ''abc'')]\<rparr>" demo_conn]
      a w(1) by blast
  have "\<exists>i. Atoi (ByName (Params (demo_request\<lparr>Params := [(''id'', ''0'')]\<rparr>)) ''id'') = Some i \<and> i < 1"
    using b by simp
  then have B: "status_of (rw (snippetView (demo_request\<lparr>Params := [(''id'', ''0'')]\<rparr>) demo_conn)) = Some 404
      \<and> trace (snippetView (demo_request\<lparr>Params := [(''id'', ''0'')]\<rparr>) demo_conn) = trace demo_conn"
    using snippetView_bad_id_not_found [of "demo_request\<lparr>Params := [(''id'', ''0'')]\<rparr>" demo_conn]
      w(1) by blast
  show ?thesis
    using A B a b by (simp only: w(2))
qed

end
